theory Spec2Isabelle
  imports Complex_Main "HOL-Library.Log_Nat" "HOL-Library.Multiset"
begin

section \<open>World capital quiz: the round core of \<^verbatim>\<open>src/App.tsx\<close>\<close>

text \<open>
  The component keeps its game state in React state cells and refs. The model is a
  record of those cells. A handler is a closure of one render: the state cells it names
  (\<^verbatim>\<open>isAnswered\<close>, \<^verbatim>\<open>currentQuestion\<close>, \<^verbatim>\<open>currentDifficulty\<close>, \<^verbatim>\<open>speedMode\<close>) have the
  values of that render, while a ref (\<^verbatim>\<open>timerRef\<close>, \<^verbatim>\<open>timeoutHandledRef\<close>) and the
  argument of an updater function (\<^verbatim>\<open>prev => ...\<close>) have the value of the moment of
  the call. So a handler takes two states: the render \<open>r\<close> it was created in, and the
  state \<open>s\<close> of the cells when it runs, and returns the state after all its updates.
  Once the component has rendered again, the two are the same state.
  Side effects that leave the component (a sound, a deferred callback handed to
  \<^verbatim>\<open>setTimeout\<close>) are appended to logs in the state.
  Score, hearts, combo, question number and time left are integers; JavaScript computes
  with them exactly while they stay below \<open>2 ^ 53\<close>, and the model takes them as \<open>int\<close>.
  The fact table \<^verbatim>\<open>data/countries.json\<close> is a parameter \<open>bank\<close> of every function
  that reads \<^verbatim>\<open>COUNTRY_CAPITALS\<close>; the calls of \<^verbatim>\<open>Math.random\<close> are parameters too.
\<close>

subsection \<open>Types\<close>

datatype Difficulty = Easy | Medium | Hard

datatype Screen = ScrMain | ScrDifficulty | ScrGame | ScrGameOver | ScrHelp

record CountryCapital =
  country :: string
  capital :: string
  difficulty :: "Difficulty option"

record Question = CountryCapital +
  options :: "string list"

text \<open>
  The feedback line is one of three fixed Korean sentences or the empty string:
  \<open>FbCorrect\<close> is the sentence set on a right answer, \<open>FbWrong\<close> the one set on a
  wrong answer, \<open>FbTimeout\<close> the one set when the time is up.
\<close>

datatype Feedback = FbNone | FbCorrect | FbWrong | FbTimeout

datatype Sound = SndCorrect | SndWrong | SndTimeout | SndClick

text \<open>The two callbacks the handlers pass to \<^verbatim>\<open>setTimeout\<close>.\<close>

datatype Deferred = CallNextQuestion | CallSetScreenGameOver

text \<open>A JavaScript number as far as the high score needs it: an integer or NaN.\<close>

datatype number = NaN | Num int

datatype error = TypeError

subsection \<open>Binary64 arithmetic\<close>

text \<open>
  The three factors of the score are JavaScript numbers, so the product is computed in
  IEEE binary64 with round-to-nearest, ties-to-even. A double is represented by the
  rational it denotes. \<open>binary64 x\<close> is the double nearest to \<open>x\<close>, for \<open>x\<close> in the
  normal range (the factors and products here lie between 1 and 200).
\<close>

definition pow2 :: "int \<Rightarrow> rat" where
  "pow2 e = (if 0 \<le> e then 2 ^ nat e else 1 / 2 ^ nat (- e))"

definition binade :: "rat \<Rightarrow> int" where
  "binade x = (let (p, q) = quotient_of x; d = bitlen p - bitlen q
               in if pow2 d \<le> x then d else d - 1)"

definition roundTiesToEven :: "rat \<Rightarrow> int" where
  "roundTiesToEven m =
     (let n = \<lfloor>m\<rfloor>; r = m - of_int n
      in if r < 1 / 2 then n else if 1 / 2 < r then n + 1
         else if even n then n else n + 1)"

definition binary64 :: "rat \<Rightarrow> rat" where
  "binary64 x =
     (if x = 0 then 0
      else let a = \<bar>x\<bar>; e = binade a - 52
           in sgn x * of_int (roundTiesToEven (a / pow2 e)) * pow2 e)"

text \<open>
  \<open>x * y\<close> of the source: each operand is the double its literal denotes, the exact
  product is rounded once.
\<close>

definition js_times :: "rat \<Rightarrow> rat \<Rightarrow> rat" where
  "js_times x y = binary64 (binary64 x * binary64 y)"

definition Math_floor :: "rat \<Rightarrow> int" where
  "Math_floor x = \<lfloor>x\<rfloor>"

subsection \<open>Scoring tables\<close>

text \<open>
  \<^verbatim>\<open>getScoreByDifficulty(difficulty?: 'easy' | 'medium' | 'hard')\<close>: the argument may be
  undefined, which takes the \<^verbatim>\<open>default\<close> branch.
\<close>

fun getScoreByDifficulty :: "Difficulty option \<Rightarrow> rat" where
  "getScoreByDifficulty (Some Easy) = 10"
| "getScoreByDifficulty (Some Medium) = 20"
| "getScoreByDifficulty (Some Hard) = 30"
| "getScoreByDifficulty None = 10"

definition getComboMultiplier :: "int \<Rightarrow> rat" where
  "getComboMultiplier combo =
     (if combo < 3 then 1
      else if combo < 5 then 12 / 10
      else if combo < 10 then 15 / 10
      else if combo < 20 then 2
      else 25 / 10)"

fun getModeMultiplier :: "Difficulty \<Rightarrow> rat" where
  "getModeMultiplier Easy = 1"
| "getModeMultiplier Medium = 12 / 10"
| "getModeMultiplier Hard = 15 / 10"

fun getTimeByDifficulty :: "Difficulty \<Rightarrow> int" where
  "getTimeByDifficulty Easy = 7"
| "getTimeByDifficulty Medium = 4"
| "getTimeByDifficulty Hard = 2"

text \<open>
  The points of one right answer, as \<^verbatim>\<open>handleAnswer\<close> computes them inside the
  \<^verbatim>\<open>setCombo\<close> updater: \<open>qd\<close> is \<^verbatim>\<open>currentQuestion?.difficulty\<close>, \<open>mode\<close> is
  \<^verbatim>\<open>currentDifficulty\<close> and \<open>newCombo\<close> is \<^verbatim>\<open>prev + 1\<close>.
\<close>

definition finalPoints :: "Difficulty option \<Rightarrow> Difficulty \<Rightarrow> int \<Rightarrow> int" where
  "finalPoints qd mode newCombo =
     (let basePoints = getScoreByDifficulty qd;
          modeMultiplier = getModeMultiplier mode;
          comboMultiplier = getComboMultiplier newCombo
      in Math_floor (js_times (js_times basePoints modeMultiplier) comboMultiplier))"

subsection \<open>Question generator\<close>

text \<open>
  The random draws of one call of \<^verbatim>\<open>generateQuestion\<close>: \<open>rnd\<close> is the value of
  \<^verbatim>\<open>Math.random()\<close> in the index computation, a number in \<open>[0, 1)\<close>; \<open>shuffleOthers\<close>
  and \<open>shuffleOptions\<close> are what the two calls of
  \<^verbatim>\<open>.sort(() => Math.random() - 0.5)\<close> do to their array. Such a sort rearranges
  the array and nothing else, which \<open>rearranges\<close> states. The index
  \<^verbatim>\<open>Math.floor(Math.random() * availableCountries.length)\<close> is computed exactly; it
  ranges over the positions of the list, as the rounded product does.
\<close>

record Draw =
  rnd :: rat
  shuffleOthers :: "string list \<Rightarrow> string list"
  shuffleOptions :: "string list \<Rightarrow> string list"

definition rearranges :: "(string list \<Rightarrow> string list) \<Rightarrow> bool" where
  "rearranges f = (\<forall>xs. mset (f xs) = mset xs)"

definition fairDraw :: "Draw \<Rightarrow> bool" where
  "fairDraw g = (0 \<le> rnd g \<and> rnd g < 1 \<and> rearranges (shuffleOthers g) \<and> rearranges (shuffleOptions g))"

definition isEasy :: "CountryCapital \<Rightarrow> bool" where
  "isEasy c = (difficulty c = Some Easy)"

definition isEasyOrMedium :: "CountryCapital \<Rightarrow> bool" where
  "isEasyOrMedium c = (difficulty c = Some Easy \<or> difficulty c = Some Medium)"

text \<open>The first part of \<^verbatim>\<open>generateQuestion\<close>: the facts the right answer is drawn from.\<close>

definition availableCountries :: "CountryCapital list \<Rightarrow> Difficulty \<Rightarrow> int \<Rightarrow> CountryCapital list" where
  "availableCountries bank d questionNumber =
     (case d of
        Easy \<Rightarrow>
          if questionNumber \<le> 20 then filter isEasy bank
          else if questionNumber \<le> 40 then filter isEasyOrMedium bank
          else bank
      | Medium \<Rightarrow>
          if questionNumber \<le> 30 then filter isEasyOrMedium bank
          else bank
      | Hard \<Rightarrow> bank)"

text \<open>
  \<^verbatim>\<open>correct.difficulty || 'easy'\<close>: a fact without a difficulty gives an easy question.
\<close>

definition orEasy :: "Difficulty option \<Rightarrow> Difficulty" where
  "orEasy d = (case d of None \<Rightarrow> Easy | Some x \<Rightarrow> x)"

text \<open>
  Reading \<^verbatim>\<open>availableCountries[randomIndex]\<close> past the end gives undefined, and
  \<^verbatim>\<open>correct.capital\<close> then throws a TypeError; this is what happens when no fact is
  available, where the index is 0.
\<close>

definition generateQuestion :: "CountryCapital list \<Rightarrow> Draw \<Rightarrow> Difficulty \<Rightarrow> int \<Rightarrow> error + Question" where
  "generateQuestion bank g d questionNumber =
     (let available = availableCountries bank d questionNumber;
          randomIndex = nat \<lfloor>rnd g * of_nat (length available)\<rfloor>
      in if length available \<le> randomIndex then Inl TypeError
         else
           let correct = available ! randomIndex;
               otherCapitals =
                 take 3 (shuffleOthers g
                   (map capital (filter (\<lambda>item. capital item \<noteq> capital correct) bank)));
               opts = shuffleOptions g (capital correct # otherCapitals)
           in Inr \<lparr>country = country correct, capital = capital correct,
                   difficulty = Some (orEasy (difficulty correct)), options = opts\<rparr>)"

subsection \<open>Game state\<close>

record GameState =
  screen :: Screen
  speedMode :: bool
  score :: int
  hearts :: int
  questionNumber :: int
  combo :: int
  timeLeft :: int
  currentDifficulty :: Difficulty
  currentQuestion :: "Question option"
  selectedAnswer :: "string option"
  isAnswered :: bool
  feedback :: Feedback
  correctAnswer :: "string option"
  highScore :: number
  timerRef :: "nat option"
  timeoutHandledRef :: bool
  played :: "Sound list"
  scheduled :: "(Deferred \<times> nat) list"

definition playSound :: "Sound \<Rightarrow> GameState \<Rightarrow> GameState" where
  "playSound k s = s\<lparr>played := played s @ [k]\<rparr>"

definition setTimeout :: "Deferred \<Rightarrow> nat \<Rightarrow> GameState \<Rightarrow> GameState" where
  "setTimeout f ms s = s\<lparr>scheduled := scheduled s @ [(f, ms)]\<rparr>"

definition clearTimer :: "GameState \<Rightarrow> GameState" where
  "clearTimer s = s\<lparr>timerRef := None\<rparr>"

definition delay :: "GameState \<Rightarrow> nat" where
  "delay s = (if speedMode s then 500 else 1500)"

definition wrongDelay :: "GameState \<Rightarrow> nat" where
  "wrongDelay s = (if speedMode s then 500 else 2000)"

text \<open>
  The \<^verbatim>\<open>setHearts\<close> updater shared by the wrong-answer branch and the timeout branch:
  one heart less than the hearts of the moment, and the game-over screen or the next
  question scheduled, after a delay that depends on the \<^verbatim>\<open>speedMode\<close> of the render.
\<close>

definition loseHeart :: "GameState \<Rightarrow> GameState \<Rightarrow> GameState" where
  "loseHeart r s =
     (let newHearts = hearts s - 1
      in (if newHearts \<le> 0 then setTimeout CallSetScreenGameOver (delay r)
          else setTimeout CallNextQuestion (wrongDelay r))
           (s\<lparr>hearts := newHearts\<rparr>))"

subsection \<open>Event handlers\<close>

text \<open>
  \<^verbatim>\<open>currentQuestion?.capital\<close>: undefined without a question, and then different from
  every answer string.
\<close>

definition questionCapital :: "GameState \<Rightarrow> string option" where
  "questionCapital s = map_option capital (currentQuestion s)"

text \<open>
  \<^verbatim>\<open>currentQuestion?.capital || null\<close>: an empty capital is falsy and gives null as well.
\<close>

definition capitalOrNull :: "GameState \<Rightarrow> string option" where
  "capitalOrNull s =
     (case questionCapital s of None \<Rightarrow> None
      | Some c \<Rightarrow> if c = [] then None else Some c)"

text \<open>\<^verbatim>\<open>currentQuestion?.difficulty\<close>.\<close>

definition questionDifficulty :: "GameState \<Rightarrow> Difficulty option" where
  "questionDifficulty s = (case currentQuestion s of None \<Rightarrow> None | Some q \<Rightarrow> difficulty q)"

text \<open>
  \<^verbatim>\<open>handleAnswer\<close> as created by the render \<open>r\<close> and called in the state \<open>s\<close>. The guard,
  the question, the mode and the delays are those of the render; the combo, the score
  and the hearts that the updaters change are those of the moment. The handler never
  reads \<^verbatim>\<open>timeoutHandledRef\<close>.
\<close>

definition handleAnswerIn :: "GameState \<Rightarrow> string \<Rightarrow> GameState \<Rightarrow> GameState" where
  "handleAnswerIn r answer s =
     (if isAnswered r then s
      else
        let s1 = clearTimer (s\<lparr>isAnswered := True, selectedAnswer := Some answer\<rparr>)
        in if Some answer = questionCapital r then
             let newCombo = combo s + 1;
                 pts = finalPoints (questionDifficulty r) (currentDifficulty r) newCombo
             in setTimeout CallNextQuestion (delay r)
                  (playSound SndCorrect
                    (s1\<lparr>combo := newCombo, score := score s + pts, feedback := FbCorrect\<rparr>))
           else
             loseHeart r
               ((playSound SndWrong (s1\<lparr>combo := 0, feedback := FbWrong\<rparr>))
                  \<lparr>correctAnswer := capitalOrNull r\<rparr>))"

text \<open>A click on an answer button of the screen that shows the state \<open>s\<close>.\<close>

definition handleAnswer :: "string \<Rightarrow> GameState \<Rightarrow> GameState" where
  "handleAnswer answer s = handleAnswerIn s answer s"

text \<open>
  The timer callback \<^verbatim>\<open>tick\<close> as created by the timer effect of the render \<open>r\<close> and
  called in the state \<open>s\<close>. The effect creates it only with a question on the game
  screen (\<^verbatim>\<open>screen === 'game' && currentQuestion && !isAnswered\<close>), so \<open>tick\<close> exists
  only with a question; without one the model leaves the state alone. Its
  \<^verbatim>\<open>isAnswered\<close> is the one of the render, the latch is read at the moment of the call.
  The body of the \<^verbatim>\<open>setTimeLeft\<close> updater follows, with \<open>prev\<close> the time left at that
  moment; its second test reads the latch only.
\<close>

definition tickIn :: "GameState \<Rightarrow> GameState \<Rightarrow> GameState" where
  "tickIn r s =
     (case currentQuestion r of
        None \<Rightarrow> s
      | Some q \<Rightarrow>
          if isAnswered r \<or> timeoutHandledRef s then s
          else
            let prev = timeLeft s
            in if prev \<le> 0 then s\<lparr>timeLeft := 0\<rparr>
               else
                 let newTime = prev - 1
                 in if newTime \<le> 0 \<and> \<not> timeoutHandledRef s then
                      (loseHeart r
                        ((playSound SndTimeout
                           ((clearTimer (s\<lparr>timeoutHandledRef := True\<rparr>))
                              \<lparr>isAnswered := True, feedback := FbTimeout\<rparr>))
                           \<lparr>combo := 0, correctAnswer := Some (capital q)\<rparr>))
                        \<lparr>timeLeft := 0\<rparr>
                    else s\<lparr>timeLeft := newTime\<rparr>)"

text \<open>A tick of the timer of the screen that shows the state \<open>s\<close>.\<close>

definition tick :: "GameState \<Rightarrow> GameState" where
  "tick s = tickIn s s"

text \<open>
  The timer effect itself, run after a render in which one of its dependencies changed:
  it clears the latch and starts the interval for an open question on the game screen.
\<close>

definition timerEffect :: "nat \<Rightarrow> GameState \<Rightarrow> GameState" where
  "timerEffect intervalId s =
     (if screen s = ScrGame \<and> currentQuestion s \<noteq> None \<and> \<not> isAnswered s
      then s\<lparr>timeoutHandledRef := False, timerRef := Some intervalId\<rparr>
      else s)"

definition nextQuestion :: "CountryCapital list \<Rightarrow> Draw \<Rightarrow> GameState \<Rightarrow> error + GameState" where
  "nextQuestion bank g s =
     (if hearts s \<le> 0 then Inr (s\<lparr>screen := ScrGameOver\<rparr>)
      else
        let newNumber = questionNumber s + 1
        in case generateQuestion bank g (currentDifficulty s) newNumber of
             Inl e \<Rightarrow> Inl e
           | Inr question \<Rightarrow>
               Inr (s\<lparr>isAnswered := False, selectedAnswer := None, feedback := FbNone,
                      correctAnswer := None, currentQuestion := Some question,
                      timeLeft := getTimeByDifficulty (currentDifficulty s),
                      questionNumber := newNumber\<rparr>))"

definition startGame :: "CountryCapital list \<Rightarrow> Draw \<Rightarrow> Difficulty \<Rightarrow> GameState \<Rightarrow> error + GameState" where
  "startGame bank g d s =
     (case generateQuestion bank g d 1 of
        Inl e \<Rightarrow> Inl e
      | Inr question \<Rightarrow>
          Inr (s\<lparr>currentDifficulty := d, score := 0, hearts := 3, questionNumber := 1,
                 combo := 0, isAnswered := False, selectedAnswer := None,
                 feedback := FbNone, correctAnswer := None,
                 currentQuestion := Some question,
                 timeLeft := getTimeByDifficulty d, screen := ScrGame\<rparr>))"

subsection \<open>High score store\<close>

text \<open>
  \<^verbatim>\<open>localStorage\<close> as far as the key \<^verbatim>\<open>highScore\<close> goes: the stored string, if any,
  and whether \<^verbatim>\<open>getItem\<close> and \<^verbatim>\<open>setItem\<close> throw (storage disabled or full).
\<close>

record LocalStorage =
  highScoreItem :: "string option"
  getItemThrows :: bool
  setItemThrows :: bool

text \<open>
  Strings are byte strings, the UTF-8 form of the text. The white space that
  \<^verbatim>\<open>parseInt\<close> skips is the white space and the line terminators of the language:
  U+0009 to U+000D and U+0020 (one byte each), U+00A0 (two bytes), and U+1680, U+2000
  to U+200A, U+2028, U+2029, U+202F, U+205F, U+3000 and U+FEFF (three bytes each).
  \<open>whiteSpaceLength\<close> is the number of bytes of the white space character a string
  starts with, 0 when it starts with none.
\<close>

definition whiteSpace3 :: "nat \<Rightarrow> nat \<Rightarrow> nat \<Rightarrow> bool" where
  "whiteSpace3 b0 b1 b2 =
     ((b0 = 0xE1 \<and> b1 = 0x9A \<and> b2 = 0x80)
      \<or> (b0 = 0xE2 \<and> b1 = 0x80 \<and> (0x80 \<le> b2 \<and> b2 \<le> 0x8A \<or> b2 = 0xA8 \<or> b2 = 0xA9 \<or> b2 = 0xAF))
      \<or> (b0 = 0xE2 \<and> b1 = 0x81 \<and> b2 = 0x9F)
      \<or> (b0 = 0xE3 \<and> b1 = 0x80 \<and> b2 = 0x80)
      \<or> (b0 = 0xEF \<and> b1 = 0xBB \<and> b2 = 0xBF))"

definition whiteSpaceLength :: "string \<Rightarrow> nat" where
  "whiteSpaceLength str =
     (case map of_char str of
        [] \<Rightarrow> 0
      | b0 # bs \<Rightarrow>
          if b0 = 0x20 \<or> (0x09 \<le> b0 \<and> b0 \<le> 0x0D) then 1
          else (case bs of
                  [] \<Rightarrow> 0
                | b1 # bs' \<Rightarrow>
                    if b0 = 0xC2 \<and> b1 = 0xA0 then 2
                    else (case bs' of
                            [] \<Rightarrow> 0
                          | b2 # _ \<Rightarrow> if whiteSpace3 b0 b1 b2 then 3 else 0)))"

function skipWhiteSpace :: "string \<Rightarrow> string" where
  "skipWhiteSpace str =
     (if whiteSpaceLength str = 0 then str
      else skipWhiteSpace (drop (whiteSpaceLength str) str))"
  by pat_completeness auto
termination
  by (relation "measure length") (auto simp add: whiteSpaceLength_def split: list.splits if_splits)

declare skipWhiteSpace.simps [simp del]

definition isDigit :: "char \<Rightarrow> bool" where
  "isDigit c = (48 \<le> (of_char c :: nat) \<and> (of_char c :: nat) \<le> 57)"

definition digitValue :: "char \<Rightarrow> nat" where
  "digitValue c = of_char c - 48"

definition digitsValue :: "string \<Rightarrow> nat" where
  "digitsValue z = foldl (\<lambda>a c. 10 * a + digitValue c) 0 z"

text \<open>
  \<^verbatim>\<open>parseInt(stored, 10)\<close>: leading white space is skipped, one sign is read, then the
  longest run of decimal digits; no digit gives NaN. The value of the digits is kept as
  an integer, which is the number JavaScript returns as long as it is below \<open>2 ^ 53\<close>;
  like the score itself, the stored high score is taken to stay below that.
\<close>

definition parseInt :: "string \<Rightarrow> number" where
  "parseInt str =
     (let t = skipWhiteSpace str;
          sign = (case t of c # _ \<Rightarrow> if c = CHR ''-'' then - 1 else 1 | [] \<Rightarrow> (1::int));
          u = (case t of c # r \<Rightarrow> if c = CHR ''-'' \<or> c = CHR ''+'' then r else t | [] \<Rightarrow> t);
          z = takeWhile isDigit u
      in if z = [] then NaN else Num (sign * int (digitsValue z)))"

definition digitChar :: "nat \<Rightarrow> char" where
  "digitChar n = char_of (48 + n)"

fun digits :: "nat \<Rightarrow> string" where
  "digits n = (if n < 10 then [digitChar n] else digits (n div 10) @ [digitChar (n mod 10)])"

declare digits.simps [simp del]

text \<open>\<^verbatim>\<open>score.toString()\<close> of an integer (below \<open>10 ^ 21\<close>, where the decimal form is used).\<close>

definition toString :: "int \<Rightarrow> string" where
  "toString n = (if n < 0 then CHR ''-'' # digits (nat (- n)) else digits (nat n))"

definition getHighScore :: "LocalStorage \<Rightarrow> number" where
  "getHighScore ls =
     (if getItemThrows ls then Num 0
      else case highScoreItem ls of
             None \<Rightarrow> Num 0
           | Some stored \<Rightarrow> if stored = [] then Num 0 else parseInt stored)"

text \<open>\<^verbatim>\<open>score > currentHigh\<close>: every comparison with NaN is false.\<close>

fun greaterThan :: "int \<Rightarrow> number \<Rightarrow> bool" where
  "greaterThan x NaN = False"
| "greaterThan x (Num y) = (y < x)"

definition saveHighScore :: "int \<Rightarrow> LocalStorage \<Rightarrow> LocalStorage" where
  "saveHighScore sc ls =
     (let currentHigh = getHighScore ls
      in if greaterThan sc currentHigh then
           (if setItemThrows ls then ls else ls\<lparr>highScoreItem := Some (toString sc)\<rparr>)
         else ls)"

text \<open>The effect that runs when \<^verbatim>\<open>screen\<close> or \<^verbatim>\<open>score\<close> changed.\<close>

definition gameOverEffect :: "GameState \<times> LocalStorage \<Rightarrow> GameState \<times> LocalStorage" where
  "gameOverEffect p =
     (case p of (s, ls) \<Rightarrow>
        if screen s = ScrGameOver \<and> 0 < score s then
          let ls' = saveHighScore (score s) ls
          in (s\<lparr>highScore := getHighScore ls'\<rparr>, ls')
        else (s, ls))"

subsection \<open>Sample data\<close>

text \<open>The state of the component before the first event: the initial values of its cells.\<close>

definition initialState :: GameState where
  "initialState =
     \<lparr>screen = ScrMain, speedMode = False, score = 0, hearts = 3, questionNumber = 1,
      combo = 0, timeLeft = 10, currentDifficulty = Easy, currentQuestion = None,
      selectedAnswer = None, isAnswered = False, feedback = FbNone, correctAnswer = None,
      highScore = Num 0, timerRef = None, timeoutHandledRef = False, played = [],
      scheduled = []\<rparr>"

definition sampleBank :: "CountryCapital list" where
  "sampleBank =
     [\<lparr>country = ''France'', capital = ''Paris'', difficulty = Some Easy\<rparr>,
      \<lparr>country = ''Japan'', capital = ''Tokyo'', difficulty = Some Easy\<rparr>,
      \<lparr>country = ''Peru'', capital = ''Lima'', difficulty = Some Medium\<rparr>,
      \<lparr>country = ''Bhutan'', capital = ''Thimphu'', difficulty = Some Hard\<rparr>,
      \<lparr>country = ''Fiji'', capital = ''Suva'', difficulty = None\<rparr>]"

definition sampleDraw :: Draw where
  "sampleDraw = \<lparr>rnd = 1 / 2, shuffleOthers = (\<lambda>xs. xs), shuffleOptions = rev\<rparr>"

definition hardQuestion :: Question where
  "hardQuestion =
     \<lparr>country = ''Bhutan'', capital = ''Thimphu'', difficulty = Some Hard,
      options = [''Lima'', ''Tokyo'', ''Paris'', ''Thimphu'']\<rparr>"

text \<open>A round of hard mode that waits for its answer, after four right answers in a row.\<close>

definition armedState :: GameState where
  "armedState =
     initialState\<lparr>screen := ScrGame, currentDifficulty := Hard,
       currentQuestion := Some hardQuestion, timeLeft := 2, combo := 4, score := 150,
       questionNumber := 5, timerRef := Some 1\<rparr>"

text \<open>The first round of a game in easy mode, on an easy question.\<close>

definition easyQuestion :: Question where
  "easyQuestion =
     \<lparr>country = ''Japan'', capital = ''Tokyo'', difficulty = Some Easy,
      options = [''Thimphu'', ''Lima'', ''Paris'', ''Tokyo'']\<rparr>"

definition firstRound :: GameState where
  "firstRound =
     initialState\<lparr>screen := ScrGame, currentQuestion := Some easyQuestion, timeLeft := 7,
       timerRef := Some 1\<rparr>"

text \<open>The same round in its last second: the next tick is the timeout.\<close>

definition lastSecond :: GameState where
  "lastSecond = armedState\<lparr>timeLeft := 1\<rparr>"

text \<open>
  What \<open>sampleDraw\<close> generates from \<open>sampleBank\<close> whenever all five facts are eligible,
  and the state of the round after the advance to question 6.
\<close>

definition limaQuestion :: Question where
  "limaQuestion =
     \<lparr>country = ''Peru'', capital = ''Lima'', difficulty = Some Medium,
      options = [''Thimphu'', ''Tokyo'', ''Paris'', ''Lima'']\<rparr>"

definition nextState :: GameState where
  "nextState =
     armedState\<lparr>isAnswered := False, selectedAnswer := None, feedback := FbNone,
       correctAnswer := None, currentQuestion := Some limaQuestion, timeLeft := 2,
       questionNumber := 6\<rparr>"

text \<open>
  \<open>storeWith str\<close> is a store that works and holds the string \<open>str\<close>;
  \<open>gameOverState sc\<close> is a finished run with the score \<open>sc\<close>.
\<close>

definition storeWith :: "string \<Rightarrow> LocalStorage" where
  "storeWith str = \<lparr>highScoreItem = Some str, getItemThrows = False, setItemThrows = False\<rparr>"

definition gameOverState :: "int \<Rightarrow> GameState" where
  "gameOverState sc = initialState\<lparr>screen := ScrGameOver, score := sc, hearts := 0\<rparr>"

text \<open>A bank in which two facts share a capital.\<close>

definition twinBank :: "CountryCapital list" where
  "twinBank =
     [\<lparr>country = ''France'', capital = ''Paris'', difficulty = Some Easy\<rparr>,
      \<lparr>country = ''Israel'', capital = ''Jerusalem'', difficulty = Some Medium\<rparr>,
      \<lparr>country = ''Palestine'', capital = ''Jerusalem'', difficulty = Some Hard\<rparr>,
      \<lparr>country = ''Japan'', capital = ''Tokyo'', difficulty = Some Easy\<rparr>,
      \<lparr>country = ''Peru'', capital = ''Lima'', difficulty = Some Medium\<rparr>]"

text \<open>
  A draw that takes the first eligible fact, the question it gives on \<open>twinBank\<close>, and
  the state in which \<open>startGame\<close> leaves \<open>armedState\<close> with it.
\<close>

definition twinDraw :: Draw where
  "twinDraw = \<lparr>rnd = 0, shuffleOthers = (\<lambda>xs. xs), shuffleOptions = rev\<rparr>"

definition twinQuestion :: Question where
  "twinQuestion =
     \<lparr>country = ''France'', capital = ''Paris'', difficulty = Some Easy,
      options = [''Tokyo'', ''Jerusalem'', ''Jerusalem'', ''Paris'']\<rparr>"

definition twinStart :: GameState where
  "twinStart =
     armedState\<lparr>currentDifficulty := Easy, score := 0, hearts := 3, questionNumber := 1,
       combo := 0, currentQuestion := Some twinQuestion, timeLeft := 7\<rparr>"

text \<open>Stores that do not work, or hold nothing.\<close>

definition brokenStore :: LocalStorage where
  "brokenStore = \<lparr>highScoreItem = Some ''150'', getItemThrows = True, setItemThrows = True\<rparr>"

definition emptyStore :: LocalStorage where
  "emptyStore = \<lparr>highScoreItem = None, getItemThrows = False, setItemThrows = False\<rparr>"

section \<open>Scoring\<close>

text \<open>
  Two known values of the binary64 model: the double that the literal \<^verbatim>\<open>1.2\<close> denotes,
  and the product \<^verbatim>\<open>1.1 * 1.1\<close>, which JavaScript prints as 1.2100000000000002.
\<close>

lemma binary64_sample: "binary64 (12 / 10) = 5404319552844595 / 4503599627370496"
  by code_simp

lemma js_times_sample: "js_times (11 / 10) (11 / 10) = 5449355549118301 / 4503599627370496"
  by code_simp

text \<open>
  Every product the score computation can form, evaluated in the binary64 model: first
  base points times mode multiplier, then that product times the combo multiplier,
  floored.
\<close>

lemma js_times_base_mode:
  "js_times 10 1 = 10"
  "js_times 10 (12 / 10) = 12"
  "js_times 10 (15 / 10) = 15"
  "js_times 20 1 = 20"
  "js_times 20 (12 / 10) = 24"
  "js_times 20 (15 / 10) = 30"
  "js_times 30 1 = 30"
  "js_times 30 (12 / 10) = 36"
  "js_times 30 (15 / 10) = 45"
  by code_simp+

lemma floor_js_times_combo:
  "Math_floor (js_times 10 1) = 10"
  "Math_floor (js_times 10 (12 / 10)) = 12"
  "Math_floor (js_times 10 (15 / 10)) = 15"
  "Math_floor (js_times 10 2) = 20"
  "Math_floor (js_times 10 (25 / 10)) = 25"
  "Math_floor (js_times 12 1) = 12"
  "Math_floor (js_times 12 (12 / 10)) = 14"
  "Math_floor (js_times 12 (15 / 10)) = 18"
  "Math_floor (js_times 12 2) = 24"
  "Math_floor (js_times 12 (25 / 10)) = 30"
  "Math_floor (js_times 15 1) = 15"
  "Math_floor (js_times 15 (12 / 10)) = 18"
  "Math_floor (js_times 15 (15 / 10)) = 22"
  "Math_floor (js_times 15 2) = 30"
  "Math_floor (js_times 15 (25 / 10)) = 37"
  "Math_floor (js_times 20 1) = 20"
  "Math_floor (js_times 20 (12 / 10)) = 24"
  "Math_floor (js_times 20 (15 / 10)) = 30"
  "Math_floor (js_times 20 2) = 40"
  "Math_floor (js_times 20 (25 / 10)) = 50"
  "Math_floor (js_times 24 1) = 24"
  "Math_floor (js_times 24 (12 / 10)) = 28"
  "Math_floor (js_times 24 (15 / 10)) = 36"
  "Math_floor (js_times 24 2) = 48"
  "Math_floor (js_times 24 (25 / 10)) = 60"
  "Math_floor (js_times 30 1) = 30"
  "Math_floor (js_times 30 (12 / 10)) = 36"
  "Math_floor (js_times 30 (15 / 10)) = 45"
  "Math_floor (js_times 30 2) = 60"
  "Math_floor (js_times 30 (25 / 10)) = 75"
  "Math_floor (js_times 36 1) = 36"
  "Math_floor (js_times 36 (12 / 10)) = 43"
  "Math_floor (js_times 36 (15 / 10)) = 54"
  "Math_floor (js_times 36 2) = 72"
  "Math_floor (js_times 36 (25 / 10)) = 90"
  "Math_floor (js_times 45 1) = 45"
  "Math_floor (js_times 45 (12 / 10)) = 54"
  "Math_floor (js_times 45 (15 / 10)) = 67"
  "Math_floor (js_times 45 2) = 90"
  "Math_floor (js_times 45 (25 / 10)) = 112"
  by code_simp+


lemma finalPoints_exact:
  "finalPoints qd mode c = \<lfloor>getScoreByDifficulty qd * getModeMultiplier mode * getComboMultiplier c\<rfloor>"
proof -
  consider "getComboMultiplier c = 1" | "getComboMultiplier c = 12 / 10" | "getComboMultiplier c = 15 / 10"
    | "getComboMultiplier c = 2" | "getComboMultiplier c = 25 / 10"
    unfolding getComboMultiplier_def by presburger
  then show ?thesis
  proof cases
    case 1
    have "finalPoints qd mode c = \<lfloor>getScoreByDifficulty qd * getModeMultiplier mode * 1\<rfloor>"
      unfolding finalPoints_def Let_def 1
      by (cases qd rule: getScoreByDifficulty.cases; cases mode;
          simp only: getScoreByDifficulty.simps getModeMultiplier.simps js_times_base_mode floor_js_times_combo; simp add: Math_floor_def floor_eq_iff)
    then show ?thesis by (simp only: 1)
  next
    case 2
    have "finalPoints qd mode c = \<lfloor>getScoreByDifficulty qd * getModeMultiplier mode * (12 / 10)\<rfloor>"
      unfolding finalPoints_def Let_def 2
      by (cases qd rule: getScoreByDifficulty.cases; cases mode;
          simp only: getScoreByDifficulty.simps getModeMultiplier.simps js_times_base_mode floor_js_times_combo; simp add: Math_floor_def floor_eq_iff)
    then show ?thesis by (simp only: 2)
  next
    case 3
    have "finalPoints qd mode c = \<lfloor>getScoreByDifficulty qd * getModeMultiplier mode * (15 / 10)\<rfloor>"
      unfolding finalPoints_def Let_def 3
      by (cases qd rule: getScoreByDifficulty.cases; cases mode;
          simp only: getScoreByDifficulty.simps getModeMultiplier.simps js_times_base_mode floor_js_times_combo; simp add: Math_floor_def floor_eq_iff)
    then show ?thesis by (simp only: 3)
  next
    case 4
    have "finalPoints qd mode c = \<lfloor>getScoreByDifficulty qd * getModeMultiplier mode * 2\<rfloor>"
      unfolding finalPoints_def Let_def 4
      by (cases qd rule: getScoreByDifficulty.cases; cases mode;
          simp only: getScoreByDifficulty.simps getModeMultiplier.simps js_times_base_mode floor_js_times_combo; simp add: Math_floor_def floor_eq_iff)
    then show ?thesis by (simp only: 4)
  next
    case 5
    have "finalPoints qd mode c = \<lfloor>getScoreByDifficulty qd * getModeMultiplier mode * (25 / 10)\<rfloor>"
      unfolding finalPoints_def Let_def 5
      by (cases qd rule: getScoreByDifficulty.cases; cases mode;
          simp only: getScoreByDifficulty.simps getModeMultiplier.simps js_times_base_mode floor_js_times_combo; simp add: Math_floor_def floor_eq_iff)
    then show ?thesis by (simp only: 5)
  qed
qed

lemma getComboMultiplier_mono: "c \<le> c' \<Longrightarrow> getComboMultiplier c \<le> getComboMultiplier c'"
  by (simp add: getComboMultiplier_def)

lemma handleAnswer_correct_score:
  assumes "\<not> isAnswered s" and "Some answer = questionCapital s"
  shows "score (handleAnswer answer s) =
           score s + finalPoints (questionDifficulty s) (currentDifficulty s) (combo s + 1)"
    and "combo (handleAnswer answer s) = combo s + 1"
  using assms
  by (simp_all add: handleAnswer_def handleAnswerIn_def Let_def setTimeout_def playSound_def
        clearTimer_def)

lemma getScore_orEasy: "getScoreByDifficulty d = getScoreByDifficulty (Some (orEasy d))"
  by (cases d) (simp_all add: orEasy_def)

text \<open>
  Claim C3. On a right answer to an open question the score grows by
  \<open>floor (basePoints * modeMultiplier * comboMultiplier)\<close>, the exact product of the
  three table values: the base points of the question's own difficulty (easy when the
  question has none), the mode multiplier of the selected mode, and the combo multiplier
  of the combo after its increment. The double arithmetic of the source gives this exact
  floor in every case. For a hard question in hard mode at new combo 5 the award is 67;
  for an easy question in easy mode on a first right answer it is 10.
\<close>

theorem correct_answer_award:
  assumes "\<not> isAnswered s" and "currentQuestion s = Some q" and "answer = capital q"
  shows "score (handleAnswer answer s) - score s =
           \<lfloor>getScoreByDifficulty (Some (orEasy (difficulty q)))
              * getModeMultiplier (currentDifficulty s)
              * getComboMultiplier (combo s + 1)\<rfloor>
       \<and> (difficulty q = Some Hard \<and> currentDifficulty s = Hard \<and> combo s + 1 = 5
            \<longrightarrow> score (handleAnswer answer s) - score s = 67)
       \<and> ((difficulty q = Some Easy \<or> difficulty q = None) \<and> currentDifficulty s = Easy \<and> combo s = 0
            \<longrightarrow> score (handleAnswer answer s) - score s = 10)"
proof -
  have cap: "Some answer = questionCapital s"
    using assms by (simp add: questionCapital_def)
  have qd: "questionDifficulty s = difficulty q"
    using assms by (simp add: questionDifficulty_def)
  have pts: "score (handleAnswer answer s) - score s =
      finalPoints (difficulty q) (currentDifficulty s) (combo s + 1)"
    using handleAnswer_correct_score(1) [OF assms(1) cap] qd by simp
  have general: "score (handleAnswer answer s) - score s =
           \<lfloor>getScoreByDifficulty (Some (orEasy (difficulty q)))
              * getModeMultiplier (currentDifficulty s)
              * getComboMultiplier (combo s + 1)\<rfloor>"
    using pts finalPoints_exact getScore_orEasy [of "difficulty q"] by simp
  have hard: "difficulty q = Some Hard \<and> currentDifficulty s = Hard \<and> combo s + 1 = 5
            \<longrightarrow> score (handleAnswer answer s) - score s = 67"
    using general by (auto simp add: orEasy_def getComboMultiplier_def floor_eq_iff)
  have easy: "(difficulty q = Some Easy \<or> difficulty q = None) \<and> currentDifficulty s = Easy \<and> combo s = 0
            \<longrightarrow> score (handleAnswer answer s) - score s = 10"
    using general by (auto simp add: orEasy_def getComboMultiplier_def)
  show ?thesis using general hard easy by blast
qed

lemma armed_facts:
  "\<not> isAnswered armedState" "currentQuestion armedState = Some hardQuestion"
  "''Thimphu'' = capital hardQuestion"
  by (simp_all add: armedState_def initialState_def hardQuestion_def)

lemma firstRound_facts:
  "\<not> isAnswered firstRound" "currentQuestion firstRound = Some easyQuestion"
  "''Tokyo'' = capital easyQuestion"
  by (simp_all add: firstRound_def initialState_def easyQuestion_def)

theorem correct_answer_award_witness:
  "\<not> isAnswered armedState \<and> currentQuestion armedState = Some hardQuestion
   \<and> ''Thimphu'' = capital hardQuestion
   \<and> difficulty hardQuestion = Some Hard \<and> currentDifficulty armedState = Hard
   \<and> combo armedState + 1 = 5
   \<and> score (handleAnswer ''Thimphu'' armedState) - score armedState = 67
   \<and> \<not> isAnswered firstRound \<and> currentQuestion firstRound = Some easyQuestion
   \<and> ''Tokyo'' = capital easyQuestion
   \<and> difficulty easyQuestion = Some Easy \<and> currentDifficulty firstRound = Easy
   \<and> combo firstRound = 0
   \<and> score (handleAnswer ''Tokyo'' firstRound) - score firstRound = 10"
proof -
  have hard: "difficulty hardQuestion = Some Hard \<and> currentDifficulty armedState = Hard
        \<and> combo armedState + 1 = 5"
    by (simp add: armedState_def initialState_def hardQuestion_def)
  have easy: "difficulty easyQuestion = Some Easy \<and> currentDifficulty firstRound = Easy
        \<and> combo firstRound = 0"
    by (simp add: firstRound_def initialState_def easyQuestion_def)
  show ?thesis
    using correct_answer_award [OF armed_facts] armed_facts hard
      correct_answer_award [OF firstRound_facts] firstRound_facts easy
    by blast
qed

lemma getComboMultiplier_steps:
  "(getComboMultiplier (c - 1) \<noteq> getComboMultiplier c) = (c = 3 \<or> c = 5 \<or> c = 10 \<or> c = 20)"
  unfolding getComboMultiplier_def by (simp; presburger)

text \<open>
  Claim C4. \<open>getComboMultiplier\<close> never decreases when the combo grows; it is 1.0 below 3,
  1.2 below 5, 1.5 below 10, 2.0 below 20 and 2.5 from 20 on, so its value differs from
  the value at the combo before exactly at 3, 5, 10 and 20. On a right answer the
  multiplier that enters the award is the one of the combo after the increment (the
  combo of the state after the answer).
\<close>

theorem combo_multiplier_steps:
  "(c \<le> c' \<longrightarrow> getComboMultiplier c \<le> getComboMultiplier c')
   \<and> (c < 3 \<longrightarrow> getComboMultiplier c = 1)
   \<and> (3 \<le> c \<and> c < 5 \<longrightarrow> getComboMultiplier c = 12 / 10)
   \<and> (5 \<le> c \<and> c < 10 \<longrightarrow> getComboMultiplier c = 15 / 10)
   \<and> (10 \<le> c \<and> c < 20 \<longrightarrow> getComboMultiplier c = 2)
   \<and> (20 \<le> c \<longrightarrow> getComboMultiplier c = 25 / 10)
   \<and> ((getComboMultiplier (c - 1) \<noteq> getComboMultiplier c) = (c = 3 \<or> c = 5 \<or> c = 10 \<or> c = 20))
   \<and> (\<not> isAnswered s \<and> Some answer = questionCapital s \<longrightarrow>
         combo (handleAnswer answer s) = combo s + 1
       \<and> score (handleAnswer answer s) =
           score s + Math_floor (js_times
             (js_times (getScoreByDifficulty (questionDifficulty s))
                       (getModeMultiplier (currentDifficulty s)))
             (getComboMultiplier (combo (handleAnswer answer s)))))"
proof -
  have mono: "c \<le> c' \<longrightarrow> getComboMultiplier c \<le> getComboMultiplier c'"
    using getComboMultiplier_mono by blast
  have vals: "(c < 3 \<longrightarrow> getComboMultiplier c = 1)
   \<and> (3 \<le> c \<and> c < 5 \<longrightarrow> getComboMultiplier c = 12 / 10)
   \<and> (5 \<le> c \<and> c < 10 \<longrightarrow> getComboMultiplier c = 15 / 10)
   \<and> (10 \<le> c \<and> c < 20 \<longrightarrow> getComboMultiplier c = 2)
   \<and> (20 \<le> c \<longrightarrow> getComboMultiplier c = 25 / 10)"
    by (simp add: getComboMultiplier_def)
  have use: "\<not> isAnswered s \<and> Some answer = questionCapital s \<longrightarrow>
         combo (handleAnswer answer s) = combo s + 1
       \<and> score (handleAnswer answer s) =
           score s + Math_floor (js_times
             (js_times (getScoreByDifficulty (questionDifficulty s))
                       (getModeMultiplier (currentDifficulty s)))
             (getComboMultiplier (combo (handleAnswer answer s))))"
    using handleAnswer_correct_score [of s answer]
    by (simp add: finalPoints_def Let_def)
  show ?thesis
    using mono vals getComboMultiplier_steps [of c] use by blast
qed

theorem combo_multiplier_steps_witness:
  "(4::int) \<le> 5 \<and> getComboMultiplier 4 \<le> getComboMultiplier 5
   \<and> getComboMultiplier 2 = 1 \<and> getComboMultiplier 4 = 12 / 10
   \<and> getComboMultiplier 7 = 15 / 10 \<and> getComboMultiplier 15 = 2
   \<and> getComboMultiplier 25 = 25 / 10
   \<and> getComboMultiplier (5 - 1) \<noteq> getComboMultiplier 5
   \<and> \<not> isAnswered armedState \<and> Some ''Thimphu'' = questionCapital armedState
   \<and> combo (handleAnswer ''Thimphu'' armedState) = combo armedState + 1"
proof -
  have h: "\<not> isAnswered armedState \<and> Some ''Thimphu'' = questionCapital armedState"
    by (simp add: armedState_def initialState_def hardQuestion_def questionCapital_def)
  show ?thesis
    using combo_multiplier_steps [of 4 5 armedState "''Thimphu''"]
      combo_multiplier_steps [of 2 2 armedState "''Thimphu''"]
      combo_multiplier_steps [of 7 7 armedState "''Thimphu''"]
      combo_multiplier_steps [of 15 15 armedState "''Thimphu''"]
      combo_multiplier_steps [of 25 25 armedState "''Thimphu''"]
      combo_multiplier_steps [of 5 5 armedState "''Thimphu''"]
      h
    by simp
qed

section \<open>Resolving a round\<close>

lemmas handler_defs =
  handleAnswer_def handleAnswerIn_def tick_def tickIn_def loseHeart_def setTimeout_def
  playSound_def clearTimer_def Let_def

text \<open>On a screen that shows the round as answered, clicks and ticks do nothing.\<close>

lemma handleAnswer_answered: "isAnswered s \<Longrightarrow> handleAnswer a s = s"
  by (simp add: handleAnswer_def handleAnswerIn_def)

lemma tick_resolved: "isAnswered s \<or> timeoutHandledRef s \<Longrightarrow> tick s = s"
  by (auto simp add: tick_def tickIn_def split: option.splits)

lemma tick_score: "score (tick s) = score s"
  by (auto simp add: handler_defs split: option.splits if_splits)

text \<open>Values of the sample states.\<close>

lemma armed_eval:
  "isAnswered armedState = False" "timeoutHandledRef armedState = False"
  "questionCapital armedState = Some ''Thimphu''" "hearts armedState = 3"
  "currentQuestion armedState = Some hardQuestion"
  "combo armedState = 4" "score armedState = 150" "questionNumber armedState = 5"
  "currentDifficulty armedState = Hard"
  by (simp_all add: armedState_def initialState_def hardQuestion_def questionCapital_def)

lemma lastSecond_eval:
  "isAnswered lastSecond = False" "timeoutHandledRef lastSecond = False"
  "questionCapital lastSecond = Some ''Thimphu''" "hearts lastSecond = 3"
  "currentQuestion lastSecond = Some hardQuestion" "timeLeft lastSecond = 1"
  "combo lastSecond = 4" "score lastSecond = 150" "questionNumber lastSecond = 5"
  by (simp_all add: lastSecond_def armedState_def initialState_def hardQuestion_def questionCapital_def)

lemma finalPoints_samples:
  "finalPoints (Some Hard) Hard 5 = 67" "finalPoints (Some Hard) Hard 1 = 45"
  by (simp_all add: finalPoints_exact getComboMultiplier_def floor_eq_iff)

lemma lastSecond_render:
  "isAnswered lastSecond = False" "questionCapital lastSecond = Some ''Thimphu''"
  "capitalOrNull lastSecond = Some ''Thimphu''" "questionDifficulty lastSecond = Some Hard"
  "currentDifficulty lastSecond = Hard" "speedMode lastSecond = False"
  "currentQuestion lastSecond = Some hardQuestion" "capital hardQuestion = ''Thimphu''"
  by (simp_all add: lastSecond_def armedState_def initialState_def hardQuestion_def
        questionCapital_def capitalOrNull_def questionDifficulty_def)

lemma timeout_in_lastSecond:
  "tickIn lastSecond lastSecond =
     lastSecond\<lparr>hearts := 2, combo := 0, feedback := FbTimeout,
       correctAnswer := Some ''Thimphu'', timeLeft := 0, isAnswered := True,
       timerRef := None, timeoutHandledRef := True, played := [SndTimeout],
       scheduled := [(CallNextQuestion, 2000)]\<rparr>"
  by (simp add: tickIn_def lastSecond_render loseHeart_def setTimeout_def playSound_def
        clearTimer_def wrongDelay_def Let_def)
     (simp add: lastSecond_def armedState_def initialState_def)

text \<open>
  Claim C1 says that, once a round is resolved, a later click or tick does nothing, so
  that no heart is taken twice and no points are given twice for one round. The code
  does not keep this between a resolution and the next render. \<open>lastSecond\<close> is an open
  round with three hearts, a score of 150 and one second left, as the timer effect
  leaves it. The tick of that render is the timeout: it sets the latch and the answered
  flag and takes a heart. A click handled before the component has rendered again still
  belongs to the same render, whose \<^verbatim>\<open>isAnswered\<close> is false, and the click handler
  does not read the latch: a wrong answer takes a second heart, and the right answer is
  paid 45 points although the round has timed out. In the other order the tick of the
  same render, called after a click, finds its own \<^verbatim>\<open>isAnswered\<close> false and the latch
  unset, and takes a heart from a round whose right answer was just paid 67 points; what
  keeps the browser from calling it is only that the click has cleared the interval.
\<close>

theorem timeout_and_click_both_resolve:
  "timerEffect 1 lastSecond = lastSecond
   \<and> hearts lastSecond = 3 \<and> score lastSecond = 150
   \<and> isAnswered (tickIn lastSecond lastSecond)
   \<and> timeoutHandledRef (tickIn lastSecond lastSecond)
   \<and> hearts (tickIn lastSecond lastSecond) = 2
   \<and> hearts (handleAnswerIn lastSecond ''Lima'' (tickIn lastSecond lastSecond)) = 1
   \<and> hearts (handleAnswerIn lastSecond ''Thimphu'' (tickIn lastSecond lastSecond)) = 2
   \<and> score (handleAnswerIn lastSecond ''Thimphu'' (tickIn lastSecond lastSecond)) = 195
   \<and> timerRef (handleAnswerIn lastSecond ''Thimphu'' lastSecond) = None
   \<and> score (handleAnswerIn lastSecond ''Thimphu'' lastSecond) = 217
   \<and> score (tickIn lastSecond (handleAnswerIn lastSecond ''Thimphu'' lastSecond)) = 217
   \<and> hearts (tickIn lastSecond (handleAnswerIn lastSecond ''Thimphu'' lastSecond)) = 2
   \<and> hearts (tickIn lastSecond (handleAnswerIn lastSecond ''Lima'' lastSecond)) = 1"
proof -
  have effect: "timerEffect 1 lastSecond = lastSecond"
    by (simp add: timerEffect_def lastSecond_def armedState_def initialState_def)
  have start: "hearts lastSecond = 3" "score lastSecond = 150" "combo lastSecond = 4"
    "timeLeft lastSecond = 1" "timeoutHandledRef lastSecond = False"
    by (simp_all add: lastSecond_def armedState_def initialState_def)
  have after_timeout: "isAnswered (tickIn lastSecond lastSecond)"
    "timeoutHandledRef (tickIn lastSecond lastSecond)"
    "hearts (tickIn lastSecond lastSecond) = 2"
    by (simp_all add: timeout_in_lastSecond)
  have wrong_after: "hearts (handleAnswerIn lastSecond ''Lima'' (tickIn lastSecond lastSecond)) = 1"
    by (simp add: timeout_in_lastSecond handleAnswerIn_def lastSecond_render loseHeart_def
          setTimeout_def playSound_def clearTimer_def Let_def)
  have right_after: "hearts (handleAnswerIn lastSecond ''Thimphu'' (tickIn lastSecond lastSecond)) = 2"
    "score (handleAnswerIn lastSecond ''Thimphu'' (tickIn lastSecond lastSecond)) = 195"
    by (simp_all add: timeout_in_lastSecond handleAnswerIn_def lastSecond_render setTimeout_def
          playSound_def clearTimer_def Let_def finalPoints_samples start)
  have right_first: "timerRef (handleAnswerIn lastSecond ''Thimphu'' lastSecond) = None"
    "score (handleAnswerIn lastSecond ''Thimphu'' lastSecond) = 217"
    "hearts (handleAnswerIn lastSecond ''Thimphu'' lastSecond) = 3"
    "timeLeft (handleAnswerIn lastSecond ''Thimphu'' lastSecond) = 1"
    "timeoutHandledRef (handleAnswerIn lastSecond ''Thimphu'' lastSecond) = False"
    by (simp_all add: handleAnswerIn_def lastSecond_render setTimeout_def playSound_def
          clearTimer_def Let_def finalPoints_samples start)
  have wrong_first: "hearts (handleAnswerIn lastSecond ''Lima'' lastSecond) = 2"
    "timeLeft (handleAnswerIn lastSecond ''Lima'' lastSecond) = 1"
    "timeoutHandledRef (handleAnswerIn lastSecond ''Lima'' lastSecond) = False"
    by (simp_all add: handleAnswerIn_def lastSecond_render loseHeart_def setTimeout_def
          playSound_def clearTimer_def Let_def start)
  have tick_after_right:
    "score (tickIn lastSecond (handleAnswerIn lastSecond ''Thimphu'' lastSecond)) = 217"
    "hearts (tickIn lastSecond (handleAnswerIn lastSecond ''Thimphu'' lastSecond)) = 2"
    by (simp_all add: tickIn_def lastSecond_render right_first loseHeart_def setTimeout_def
          playSound_def clearTimer_def Let_def)
  have tick_after_wrong:
    "hearts (tickIn lastSecond (handleAnswerIn lastSecond ''Lima'' lastSecond)) = 1"
    by (simp add: tickIn_def lastSecond_render wrong_first loseHeart_def setTimeout_def
          playSound_def clearTimer_def Let_def)
  show ?thesis
    using effect start(1,2) after_timeout wrong_after right_after right_first(1,2)
      tick_after_right tick_after_wrong
    by simp
qed

text \<open>
  What does hold: on the screen that shows the resolved round, that is once the
  component has rendered again, a click and a tick return the state as it is.
\<close>

lemma resolved_round_rendered:
  "isAnswered (handleAnswer a s)"
  "handleAnswer b (handleAnswer a s) = handleAnswer a s"
  "tick (handleAnswer a s) = handleAnswer a s"
  "isAnswered (tick s) \<Longrightarrow> handleAnswer b (tick s) = tick s \<and> tick (tick s) = tick s"
proof -
  show answered: "isAnswered (handleAnswer a s)"
    by (simp add: handler_defs)
  show "handleAnswer b (handleAnswer a s) = handleAnswer a s"
    using answered by (rule handleAnswer_answered)
  show "tick (handleAnswer a s) = handleAnswer a s"
    using answered tick_resolved by blast
  show "isAnswered (tick s) \<Longrightarrow> handleAnswer b (tick s) = tick s \<and> tick (tick s) = tick s"
    using handleAnswer_answered tick_resolved by blast
qed

text \<open>The countdown: ticks only lower the time left until the last second.\<close>

lemma tick_countdown:
  assumes "currentQuestion s \<noteq> None" and "\<not> isAnswered s" and "\<not> timeoutHandledRef s"
    and "int k < timeLeft s"
  shows "(tick ^^ k) s = s\<lparr>timeLeft := timeLeft s - int k\<rparr>"
  using assms(4)
proof (induction k)
  case 0
  show ?case by simp
next
  case (Suc k)
  then have "(tick ^^ k) s = s\<lparr>timeLeft := timeLeft s - int k\<rparr>"
    by simp
  then have "(tick ^^ Suc k) s = tick (s\<lparr>timeLeft := timeLeft s - int k\<rparr>)"
    by simp
  also have "\<dots> = s\<lparr>timeLeft := timeLeft s - int (Suc k)\<rparr>"
    using assms(1-3) Suc.prems by (auto simp add: tick_def tickIn_def Let_def)
  finally show ?case .
qed

lemma funpow_fixed: "f x = x \<Longrightarrow> (f ^^ n) x = x"
  by (induction n) simp_all

lemma tick_runs_out:
  assumes q: "currentQuestion s \<noteq> None" and a: "\<not> isAnswered s" and l: "\<not> timeoutHandledRef s"
    and pos: "0 < timeLeft s" and m: "timeLeft s \<le> int m"
  shows "(tick ^^ m) s = tick (s\<lparr>timeLeft := 1\<rparr>)"
proof -
  define k where "k = nat (timeLeft s) - 1"
  have k: "int k = timeLeft s - 1"
    using pos by (simp add: k_def)
  then have "int k < timeLeft s" by simp
  from tick_countdown [OF q a l this]
  have at_one: "(tick ^^ k) s = s\<lparr>timeLeft := 1\<rparr>"
    using k by simp
  let ?r = "tick (s\<lparr>timeLeft := 1\<rparr>)"
  have "isAnswered ?r"
    using q a l by (auto simp add: handler_defs)
  then have fixed: "tick ?r = ?r"
    using tick_resolved by blast
  have "m = (m - Suc k) + Suc k"
    using m k by linarith
  then have "(tick ^^ m) s = (tick ^^ (m - Suc k)) ((tick ^^ Suc k) s)"
    by (metis funpow_add o_apply)
  also have "(tick ^^ Suc k) s = ?r"
    using at_one by simp
  also have "(tick ^^ (m - Suc k)) ?r = ?r"
    using fixed by (rule funpow_fixed)
  finally show ?thesis .
qed

text \<open>
  Claim C5. In an open round a wrong answer sets the combo to 0 and takes exactly one
  heart, whatever the combo was; so does the timeout, the tick at one second left in an
  open round, which also sets the time-up feedback and records the right capital.
  An open round with time left that is only ticked reaches this timeout: after as many
  ticks as seconds were left, or more, the combo is 0 and exactly one heart is gone.
\<close>

theorem wrong_answer_or_timeout_penalty:
  "(\<not> isAnswered s \<and> Some a \<noteq> questionCapital s \<longrightarrow>
      combo (handleAnswer a s) = 0 \<and> hearts (handleAnswer a s) = hearts s - 1)
   \<and> (currentQuestion s \<noteq> None \<and> \<not> isAnswered s \<and> \<not> timeoutHandledRef s \<and> timeLeft s = 1 \<longrightarrow>
      combo (tick s) = 0 \<and> hearts (tick s) = hearts s - 1
      \<and> feedback (tick s) = FbTimeout \<and> correctAnswer (tick s) = questionCapital s)
   \<and> (currentQuestion s \<noteq> None \<and> \<not> isAnswered s \<and> \<not> timeoutHandledRef s
        \<and> 0 < timeLeft s \<and> timeLeft s \<le> int m \<longrightarrow>
      combo ((tick ^^ m) s) = 0 \<and> hearts ((tick ^^ m) s) = hearts s - 1)"
proof -
  have now: "(\<not> isAnswered s \<and> Some a \<noteq> questionCapital s \<longrightarrow>
      combo (handleAnswer a s) = 0 \<and> hearts (handleAnswer a s) = hearts s - 1)
   \<and> (currentQuestion s \<noteq> None \<and> \<not> isAnswered s \<and> \<not> timeoutHandledRef s \<and> timeLeft s = 1 \<longrightarrow>
      combo (tick s) = 0 \<and> hearts (tick s) = hearts s - 1
      \<and> feedback (tick s) = FbTimeout \<and> correctAnswer (tick s) = questionCapital s)"
    by (auto simp add: handler_defs questionCapital_def)
  have later: "combo ((tick ^^ m) s) = 0 \<and> hearts ((tick ^^ m) s) = hearts s - 1"
    if "currentQuestion s \<noteq> None" "\<not> isAnswered s" "\<not> timeoutHandledRef s"
      "0 < timeLeft s" "timeLeft s \<le> int m"
    using tick_runs_out [OF that] that(1-3) by (auto simp add: handler_defs)
  show ?thesis
    using now later by blast
qed

theorem wrong_answer_or_timeout_penalty_witness:
  "\<not> isAnswered armedState \<and> Some ''Lima'' \<noteq> questionCapital armedState
   \<and> combo armedState = 4
   \<and> combo (handleAnswer ''Lima'' armedState) = 0
   \<and> hearts (handleAnswer ''Lima'' armedState) = hearts armedState - 1
   \<and> currentQuestion lastSecond \<noteq> None \<and> \<not> isAnswered lastSecond
   \<and> \<not> timeoutHandledRef lastSecond \<and> timeLeft lastSecond = 1
   \<and> combo (tick lastSecond) = 0 \<and> hearts (tick lastSecond) = hearts lastSecond - 1
   \<and> currentQuestion armedState \<noteq> None \<and> \<not> timeoutHandledRef armedState
   \<and> 0 < timeLeft armedState \<and> timeLeft armedState \<le> int 2
   \<and> combo ((tick ^^ 2) armedState) = 0
   \<and> hearts ((tick ^^ 2) armedState) = hearts armedState - 1"
proof -
  have t: "timeLeft armedState = 2"
    by (simp add: armedState_def initialState_def)
  show ?thesis
    using wrong_answer_or_timeout_penalty [of armedState "''Lima''" 2]
      wrong_answer_or_timeout_penalty [of lastSecond "''Lima''" 2]
    by (simp add: armed_eval lastSecond_eval t)
qed

lemma handleAnswer_right_shape:
  assumes "\<not> isAnswered s" and "Some a = questionCapital s"
  shows "handleAnswer a s =
           s\<lparr>score := score (handleAnswer a s), combo := combo (handleAnswer a s),
             feedback := FbCorrect,
             selectedAnswer := Some a, isAnswered := True, timerRef := None,
             played := played s @ [SndCorrect],
             scheduled := scheduled s @ [(CallNextQuestion, delay s)]\<rparr>"
  using assms by (simp add: handler_defs delay_def)

lemma handleAnswer_wrong_shape:
  assumes "\<not> isAnswered s" and "Some a \<noteq> questionCapital s"
  shows "handleAnswer a s =
           s\<lparr>hearts := hearts s - 1, combo := 0, feedback := FbWrong,
             correctAnswer := capitalOrNull s,
             selectedAnswer := Some a, isAnswered := True, timerRef := None,
             played := played s @ [SndWrong],
             scheduled := scheduled (handleAnswer a s)\<rparr>"
  using assms by (simp add: handler_defs delay_def wrongDelay_def)

lemma tick_timeout_shape:
  assumes "currentQuestion s \<noteq> None" and "\<not> isAnswered s" and "\<not> timeoutHandledRef s"
    and "timeLeft s = 1"
  shows "tick s =
           s\<lparr>hearts := hearts s - 1, combo := 0, feedback := FbTimeout,
             correctAnswer := questionCapital s,
             timeLeft := 0, isAnswered := True, timerRef := None, timeoutHandledRef := True,
             played := played s @ [SndTimeout],
             scheduled := scheduled (tick s)\<rparr>"
  using assms by (auto simp add: handler_defs delay_def wrongDelay_def questionCapital_def)

lemma tick_questionNumber: "questionNumber (tick s) = questionNumber s"
  by (auto simp add: handler_defs split: option.splits)

lemma handleAnswer_questionNumber: "questionNumber (handleAnswer a s) = questionNumber s"
  by (simp add: handler_defs)

lemma nextQuestion_questionNumber:
  "nextQuestion bank g s = Inr r \<Longrightarrow> 0 < hearts s \<Longrightarrow> questionNumber r = questionNumber s + 1"
  by (auto simp add: nextQuestion_def Let_def split: sum.splits if_splits)

text \<open>
  Claim C10. Of the outcome fields (score, hearts, combo, question number, feedback,
  recorded right answer) a right answer changes score, combo and feedback only; a wrong
  answer and a timeout change hearts, combo, feedback and the recorded right answer only.
  The state after each is given in full: beside the outcome fields, resolving sets the
  answered flag, the selected answer or the latch and time left, drops the timer handle,
  and appends one sound and one deferred callback. No click and no tick changes the
  question number; the advance \<open>nextQuestion\<close> adds one to it.
\<close>

theorem resolution_frame:
  "(\<not> isAnswered s \<and> Some a = questionCapital s \<longrightarrow>
      hearts (handleAnswer a s) = hearts s
      \<and> questionNumber (handleAnswer a s) = questionNumber s
      \<and> correctAnswer (handleAnswer a s) = correctAnswer s
      \<and> handleAnswer a s =
           s\<lparr>score := score (handleAnswer a s), combo := combo (handleAnswer a s),
             feedback := FbCorrect,
             selectedAnswer := Some a, isAnswered := True, timerRef := None,
             played := played s @ [SndCorrect],
             scheduled := scheduled s @ [(CallNextQuestion, delay s)]\<rparr>)
   \<and> (\<not> isAnswered s \<and> Some a \<noteq> questionCapital s \<longrightarrow>
      score (handleAnswer a s) = score s
      \<and> questionNumber (handleAnswer a s) = questionNumber s
      \<and> handleAnswer a s =
           s\<lparr>hearts := hearts s - 1, combo := 0, feedback := FbWrong,
             correctAnswer := capitalOrNull s,
             selectedAnswer := Some a, isAnswered := True, timerRef := None,
             played := played s @ [SndWrong],
             scheduled := scheduled (handleAnswer a s)\<rparr>)
   \<and> (currentQuestion s \<noteq> None \<and> \<not> isAnswered s \<and> \<not> timeoutHandledRef s \<and> timeLeft s = 1 \<longrightarrow>
      score (tick s) = score s
      \<and> questionNumber (tick s) = questionNumber s
      \<and> tick s =
           s\<lparr>hearts := hearts s - 1, combo := 0, feedback := FbTimeout,
             correctAnswer := questionCapital s,
             timeLeft := 0, isAnswered := True, timerRef := None, timeoutHandledRef := True,
             played := played s @ [SndTimeout],
             scheduled := scheduled (tick s)\<rparr>)
   \<and> questionNumber (handleAnswer a s) = questionNumber s
   \<and> questionNumber (tick s) = questionNumber s
   \<and> (nextQuestion bank g s = Inr r \<and> 0 < hearts s \<longrightarrow> questionNumber r = questionNumber s + 1)"
proof -
  have right: "\<not> isAnswered s \<and> Some a = questionCapital s \<longrightarrow>
      hearts (handleAnswer a s) = hearts s
      \<and> questionNumber (handleAnswer a s) = questionNumber s
      \<and> correctAnswer (handleAnswer a s) = correctAnswer s
      \<and> handleAnswer a s =
           s\<lparr>score := score (handleAnswer a s), combo := combo (handleAnswer a s),
             feedback := FbCorrect,
             selectedAnswer := Some a, isAnswered := True, timerRef := None,
             played := played s @ [SndCorrect],
             scheduled := scheduled s @ [(CallNextQuestion, delay s)]\<rparr>"
    using handleAnswer_right_shape [of s a] by (simp add: handler_defs)
  have wrong: "\<not> isAnswered s \<and> Some a \<noteq> questionCapital s \<longrightarrow>
      score (handleAnswer a s) = score s
      \<and> questionNumber (handleAnswer a s) = questionNumber s
      \<and> handleAnswer a s =
           s\<lparr>hearts := hearts s - 1, combo := 0, feedback := FbWrong,
             correctAnswer := capitalOrNull s,
             selectedAnswer := Some a, isAnswered := True, timerRef := None,
             played := played s @ [SndWrong],
             scheduled := scheduled (handleAnswer a s)\<rparr>"
    using handleAnswer_wrong_shape [of s a] by (simp add: handler_defs)
  have timeout: "currentQuestion s \<noteq> None \<and> \<not> isAnswered s \<and> \<not> timeoutHandledRef s \<and> timeLeft s = 1 \<longrightarrow>
      score (tick s) = score s
      \<and> questionNumber (tick s) = questionNumber s
      \<and> tick s =
           s\<lparr>hearts := hearts s - 1, combo := 0, feedback := FbTimeout,
             correctAnswer := questionCapital s,
             timeLeft := 0, isAnswered := True, timerRef := None, timeoutHandledRef := True,
             played := played s @ [SndTimeout],
             scheduled := scheduled (tick s)\<rparr>"
    using tick_timeout_shape [of s] tick_score [of s] tick_questionNumber [of s] by blast
  have advance: "nextQuestion bank g s = Inr r \<and> 0 < hearts s \<longrightarrow>
      questionNumber r = questionNumber s + 1"
    using nextQuestion_questionNumber by blast
  show ?thesis
    using right wrong timeout advance handleAnswer_questionNumber [of a s]
      tick_questionNumber [of s]
    by blast
qed

lemma floor_five_halves: "\<lfloor>5 / 2 :: rat\<rfloor> = 2"
  by (simp add: floor_eq_iff)

lemma sample_generate_all:
  "generateQuestion sampleBank sampleDraw Hard n = Inr limaQuestion"
  by (simp add: generateQuestion_def availableCountries_def sampleBank_def sampleDraw_def
        limaQuestion_def orEasy_def Let_def floor_five_halves)

lemma sample_nextQuestion: "nextQuestion sampleBank sampleDraw armedState = Inr nextState"
  by (simp add: nextQuestion_def armed_eval sample_generate_all nextState_def Let_def)

theorem resolution_frame_witness:
  "\<not> isAnswered armedState \<and> Some ''Thimphu'' = questionCapital armedState
   \<and> hearts (handleAnswer ''Thimphu'' armedState) = 3
   \<and> questionNumber (handleAnswer ''Thimphu'' armedState) = 5
   \<and> Some ''Lima'' \<noteq> questionCapital armedState
   \<and> score (handleAnswer ''Lima'' armedState) = 150
   \<and> questionNumber (handleAnswer ''Lima'' armedState) = 5
   \<and> currentQuestion lastSecond \<noteq> None \<and> \<not> isAnswered lastSecond
   \<and> \<not> timeoutHandledRef lastSecond \<and> timeLeft lastSecond = 1
   \<and> score (tick lastSecond) = 150 \<and> questionNumber (tick lastSecond) = 5
   \<and> nextQuestion sampleBank sampleDraw armedState = Inr nextState \<and> 0 < hearts armedState
   \<and> questionNumber nextState = 6"
  using resolution_frame [of armedState "''Thimphu''" sampleBank sampleDraw nextState]
    resolution_frame [of armedState "''Lima''" sampleBank sampleDraw nextState]
    resolution_frame [of lastSecond "''Lima''" sampleBank sampleDraw nextState]
    sample_nextQuestion
  by (simp add: armed_eval lastSecond_eval)

section \<open>Question generator\<close>

lemma available_subset: "set (availableCountries bank d n) \<subseteq> set bank"
  by (auto simp add: availableCountries_def split: Difficulty.splits)

lemma easy_in_available:
  "c \<in> set bank \<Longrightarrow> isEasy c \<Longrightarrow> c \<in> set (availableCountries bank d n)"
  by (auto simp add: availableCountries_def isEasy_def isEasyOrMedium_def split: Difficulty.splits)

lemma randomIndex_in_range:
  assumes "0 \<le> r" and "r < 1" and "0 < n"
  shows "nat \<lfloor>r * of_nat n\<rfloor> < n"
proof -
  have "r * of_nat n < of_nat n"
    using assms by simp
  then have "\<lfloor>r * of_nat n\<rfloor> < int n"
    by (simp add: floor_less_iff)
  moreover have "0 \<le> \<lfloor>r * of_nat n\<rfloor>"
    using assms by simp
  ultimately show ?thesis by linarith
qed

text \<open>The question built from the fact drawn, for a draw that lands inside the list.\<close>

lemma generateQuestion_Inr:
  assumes "0 \<le> rnd g" "rnd g < 1" "availableCountries bank d n \<noteq> []"
  shows "\<exists>correct \<in> set (availableCountries bank d n).
          generateQuestion bank g d n =
            Inr \<lparr>country = country correct, capital = capital correct,
                 difficulty = Some (orEasy (difficulty correct)),
                 options = shuffleOptions g (capital correct #
                   take 3 (shuffleOthers g
                     (map capital (filter (\<lambda>item. capital item \<noteq> capital correct) bank))))\<rparr>"
proof -
  let ?av = "availableCountries bank d n"
  have "nat \<lfloor>rnd g * of_nat (length ?av)\<rfloor> < length ?av"
    using assms by (intro randomIndex_in_range) simp_all
  then show ?thesis
    by (auto simp add: generateQuestion_def Let_def intro!: bexI [of _ "?av ! nat \<lfloor>rnd g * of_nat (length ?av)\<rfloor>"])
qed

lemma others_distinct:
  assumes "distinct (map capital bank)" and "rearranges f"
  shows "distinct (take 3 (f (map capital (filter (\<lambda>item. capital item \<noteq> x) bank))))"
proof -
  have "distinct (map capital (filter (\<lambda>item. capital item \<noteq> x) bank))"
    using assms(1) by (simp add: distinct_map_filter)
  then have "distinct (f (map capital (filter (\<lambda>item. capital item \<noteq> x) bank)))"
    using assms(2) unfolding rearranges_def by (metis mset_eq_imp_distinct_iff)
  then show ?thesis by (rule distinct_take)
qed

lemma others_avoid:
  assumes "rearranges f"
  shows "x \<notin> set (take 3 (f (map capital (filter (\<lambda>item. capital item \<noteq> x) bank))))"
proof -
  have "set (f (map capital (filter (\<lambda>item. capital item \<noteq> x) bank)))
        = set (map capital (filter (\<lambda>item. capital item \<noteq> x) bank))"
    using assms unfolding rearranges_def by (metis mset_eq_setD)
  then show ?thesis
    by (auto dest!: in_set_takeD)
qed

lemma others_length:
  assumes "rearranges f" and "4 \<le> length (remdups (map capital bank))"
  shows "length (take 3 (f (map capital (filter (\<lambda>item. capital item \<noteq> x) bank)))) = 3"
proof -
  let ?ys = "map capital (filter (\<lambda>item. capital item \<noteq> x) bank)"
  have eq: "set ?ys = set (map capital bank) - {x}"
    by auto
  have c4: "4 \<le> card (set (map capital bank))"
    using assms(2) by (simp add: length_remdups_card_conv)
  have "card (set (map capital bank)) - 1 \<le> card (set (map capital bank) - {x})"
    by (simp add: card_Diff_singleton_if)
  then have "3 \<le> card (set (map capital bank) - {x})"
    using c4 by linarith
  then have "3 \<le> card (set ?ys)"
    by (simp only: eq)
  also have "\<dots> \<le> length ?ys"
    by (rule card_length)
  finally have "3 \<le> length ?ys" .
  moreover have "length (f ?ys) = length ?ys"
    using assms(1) unfolding rearranges_def by (metis size_mset)
  ultimately show ?thesis by simp
qed

lemma easy_available:
  assumes "\<exists>c \<in> set bank. difficulty c = Some Easy"
  shows "availableCountries bank d n \<noteq> []"
proof -
  from assms obtain c where "c \<in> set bank" "isEasy c"
    by (auto simp add: isEasy_def)
  then have "c \<in> set (availableCountries bank d n)"
    by (rule easy_in_available)
  then show ?thesis by auto
qed

text \<open>
  What the generator gives on a bank with at least four different capitals when a fact
  is eligible: four options with the right capital once. The options are pairwise
  distinct when no two facts of the bank share a capital.
\<close>

lemma generateQuestion_options:
  assumes draw: "fairDraw g"
    and avail: "availableCountries bank d n \<noteq> []"
    and four: "4 \<le> length (remdups (map capital bank))"
  shows "\<exists>q. generateQuestion bank g d n = Inr q
             \<and> length (options q) = 4
             \<and> count_list (options q) (capital q) = 1
             \<and> (distinct (map capital bank) \<longrightarrow> distinct (options q))"
proof -
  have r: "0 \<le> rnd g" "rnd g < 1"
    and sh1: "rearranges (shuffleOthers g)" and sh2: "rearranges (shuffleOptions g)"
    using draw by (simp_all add: fairDraw_def)
  from generateQuestion_Inr [OF r avail]
  obtain correct :: CountryCapital where gen: "generateQuestion bank g d n =
            Inr \<lparr>country = country correct, capital = capital correct,
                 difficulty = Some (orEasy (difficulty correct)),
                 options = shuffleOptions g (capital correct #
                   take 3 (shuffleOthers g
                     (map capital (filter (\<lambda>item. capital item \<noteq> capital correct) bank))))\<rparr>"
    by (elim bexE)
  let ?x = "capital correct"
  let ?others = "take 3 (shuffleOthers g (map capital (filter (\<lambda>item. capital item \<noteq> ?x) bank)))"
  let ?opts = "shuffleOptions g (?x # ?others)"
  have m: "mset ?opts = mset (?x # ?others)"
    using sh2 by (simp add: rearranges_def)
  have avoid: "?x \<notin> set ?others"
    using others_avoid [OF sh1, of "capital correct" bank] .
  have l0: "length (?x # ?others) = 4"
    using others_length [OF sh1 four, of "capital correct"] by simp
  have len: "length ?opts = 4"
    using m l0 by (metis size_mset)
  have once: "count_list ?opts ?x = 1"
  proof -
    have "count_list ?opts ?x = count_list (?x # ?others) ?x"
      using m by (metis count_mset)
    also have "\<dots> = 1"
      using avoid by simp
    finally show ?thesis .
  qed
  have dist: "distinct ?opts" if "distinct (map capital bank)"
  proof -
    have "distinct (?x # ?others)"
      using others_distinct [OF that sh1, of "capital correct"] avoid by simp
    then show ?thesis
      using m by (metis mset_eq_imp_distinct_iff)
  qed
  show ?thesis
    using gen len once dist by simp
qed

lemma sample_available: "availableCountries sampleBank d n \<noteq> []"
proof -
  have "\<exists>c \<in> set sampleBank. difficulty c = Some Easy"
    by (simp add: sampleBank_def)
  then show ?thesis
    by (rule easy_available)
qed

lemma sample_facts:
  "fairDraw sampleDraw" "4 \<le> length (remdups (map capital sampleBank))"
  "distinct (map capital sampleBank)"
  by (simp_all add: fairDraw_def rearranges_def sampleDraw_def sampleBank_def)

lemma twin_available: "availableCountries twinBank d n \<noteq> []"
proof -
  have "\<exists>c \<in> set twinBank. difficulty c = Some Easy"
    by (simp add: twinBank_def)
  then show ?thesis
    by (rule easy_available)
qed

lemma twin_facts:
  "fairDraw twinDraw" "4 \<le> length (remdups (map capital twinBank))"
  by (simp_all add: fairDraw_def rearranges_def twinDraw_def twinBank_def)

lemma twin_generate: "generateQuestion twinBank twinDraw Easy 1 = Inr twinQuestion"
  by (simp add: generateQuestion_def availableCountries_def twinBank_def twinDraw_def
        twinQuestion_def isEasy_def orEasy_def Let_def)

text \<open>
  Claim C2 says that the generator returns four pairwise distinct options for every mode
  and question number. On \<open>twinBank\<close>, which has an eligible fact for every mode and four
  different capitals, but two facts with the same capital, the question generated for
  easy mode and question 1 shows that capital twice: the generator removes the right
  capital from the wrong ones and does not remove repeated capitals.
\<close>

theorem shared_capital_repeats_option:
  "fairDraw twinDraw \<and> availableCountries twinBank Easy 1 \<noteq> []
   \<and> 4 \<le> length (remdups (map capital twinBank))
   \<and> generateQuestion twinBank twinDraw Easy 1 = Inr twinQuestion
   \<and> options twinQuestion = [''Tokyo'', ''Jerusalem'', ''Jerusalem'', ''Paris'']
   \<and> \<not> distinct (options twinQuestion)"
  using twin_facts twin_available [of Easy 1] twin_generate by (simp add: twinQuestion_def)

text \<open>
  Claim C2, amended. For every mode and question number with an eligible fact, and
  whatever the random draws, on a bank with at least four different capitals
  \<open>generateQuestion\<close> returns a question with exactly four options among which the right
  capital occurs exactly once; the options are pairwise distinct when no two facts of
  the bank share a capital.
\<close>

theorem generated_question_options:
  assumes "fairDraw g"
    and "availableCountries bank d n \<noteq> []"
    and "4 \<le> length (remdups (map capital bank))"
  shows "\<exists>q. generateQuestion bank g d n = Inr q
             \<and> length (options q) = 4
             \<and> count_list (options q) (capital q) = 1
             \<and> (distinct (map capital bank) \<longrightarrow> distinct (options q))"
  using assms by (rule generateQuestion_options)

theorem generated_question_options_witness:
  "fairDraw sampleDraw \<and> availableCountries sampleBank Easy 1 \<noteq> []
   \<and> 4 \<le> length (remdups (map capital sampleBank))
   \<and> distinct (map capital sampleBank)
   \<and> (\<exists>q. generateQuestion sampleBank sampleDraw Easy 1 = Inr q
             \<and> length (options q) = 4
             \<and> count_list (options q) (capital q) = 1
             \<and> distinct (options q))"
  using generated_question_options [OF sample_facts(1) sample_available sample_facts(2), of Easy 1]
    sample_facts sample_available [of Easy 1]
  by blast

text \<open>Without an eligible fact the generator throws.\<close>

lemma no_easy_fact_throws:
  "generateQuestion [\<lparr>country = ''Peru'', capital = ''Lima'', difficulty = Some Medium\<rparr>] g Easy 1
     = Inl TypeError"
  by (simp add: generateQuestion_def availableCountries_def isEasy_def Let_def)

lemma generateQuestion_from_available:
  assumes "generateQuestion bank g d n = Inr q"
  shows "\<exists>c \<in> set (availableCountries bank d n).
           country q = country c \<and> capital q = capital c
           \<and> difficulty q = Some (orEasy (difficulty c))"
proof -
  let ?av = "availableCountries bank d n"
  let ?i = "nat \<lfloor>rnd g * of_nat (length ?av)\<rfloor>"
  from assms have i: "?i < length ?av"
    by (auto simp add: generateQuestion_def Let_def split: if_splits)
  with assms have "country q = country (?av ! ?i) \<and> capital q = capital (?av ! ?i)
      \<and> difficulty q = Some (orEasy (difficulty (?av ! ?i)))"
    by (auto simp add: generateQuestion_def Let_def split: if_splits)
  moreover have "?av ! ?i \<in> set ?av"
    using i by simp
  ultimately show ?thesis by blast
qed

text \<open>
  Claim C6. The facts the right answer is drawn from follow the ramp of the selected
  mode. Easy mode: the easy facts up to question 20, the easy and medium facts for
  questions 21 to 40, the whole bank from question 41 on. Medium mode: the easy and
  medium facts up to question 30, the whole bank from question 31 on. Hard mode: the
  whole bank always. The country and capital of a generated question are those of one
  of these facts.
\<close>

theorem eligible_subset_ramp:
  "(n \<le> 20 \<longrightarrow>
      availableCountries bank Easy n = filter (\<lambda>c. difficulty c = Some Easy) bank)
   \<and> (20 < n \<and> n \<le> 40 \<longrightarrow>
      availableCountries bank Easy n
        = filter (\<lambda>c. difficulty c = Some Easy \<or> difficulty c = Some Medium) bank)
   \<and> (40 < n \<longrightarrow> availableCountries bank Easy n = bank)
   \<and> (n \<le> 30 \<longrightarrow>
      availableCountries bank Medium n
        = filter (\<lambda>c. difficulty c = Some Easy \<or> difficulty c = Some Medium) bank)
   \<and> (30 < n \<longrightarrow> availableCountries bank Medium n = bank)
   \<and> availableCountries bank Hard n = bank
   \<and> (generateQuestion bank g d n = Inr q \<longrightarrow>
        (\<exists>c \<in> set (availableCountries bank d n).
           country q = country c \<and> capital q = capital c))"
proof -
  have ramp: "(n \<le> 20 \<longrightarrow>
      availableCountries bank Easy n = filter (\<lambda>c. difficulty c = Some Easy) bank)
   \<and> (20 < n \<and> n \<le> 40 \<longrightarrow>
      availableCountries bank Easy n
        = filter (\<lambda>c. difficulty c = Some Easy \<or> difficulty c = Some Medium) bank)
   \<and> (40 < n \<longrightarrow> availableCountries bank Easy n = bank)
   \<and> (n \<le> 30 \<longrightarrow>
      availableCountries bank Medium n
        = filter (\<lambda>c. difficulty c = Some Easy \<or> difficulty c = Some Medium) bank)
   \<and> (30 < n \<longrightarrow> availableCountries bank Medium n = bank)
   \<and> availableCountries bank Hard n = bank"
    by (simp add: availableCountries_def isEasy_def [abs_def] isEasyOrMedium_def [abs_def])
  have pick: "generateQuestion bank g d n = Inr q \<longrightarrow>
        (\<exists>c \<in> set (availableCountries bank d n).
           country q = country c \<and> capital q = capital c)"
    using generateQuestion_from_available [of bank g d n q] by blast
  show ?thesis using ramp pick by blast
qed

lemma sample_generate_easy:
  "generateQuestion sampleBank sampleDraw Easy 1 =
     Inr \<lparr>country = ''Japan'', capital = ''Tokyo'', difficulty = Some Easy,
          options = [''Thimphu'', ''Lima'', ''Paris'', ''Tokyo'']\<rparr>"
  by (simp add: generateQuestion_def availableCountries_def sampleBank_def sampleDraw_def
        isEasy_def orEasy_def Let_def)

theorem eligible_subset_ramp_witness:
  "(1::int) \<le> 20 \<and> availableCountries sampleBank Easy 1
      = [\<lparr>country = ''France'', capital = ''Paris'', difficulty = Some Easy\<rparr>,
         \<lparr>country = ''Japan'', capital = ''Tokyo'', difficulty = Some Easy\<rparr>]
   \<and> (20::int) < 21 \<and> (21::int) \<le> 40 \<and> length (availableCountries sampleBank Easy 21) = 3
   \<and> (40::int) < 41 \<and> availableCountries sampleBank Easy 41 = sampleBank
   \<and> (30::int) \<le> 30 \<and> length (availableCountries sampleBank Medium 30) = 3
   \<and> (30::int) < 31 \<and> availableCountries sampleBank Medium 31 = sampleBank
   \<and> (\<exists>c \<in> set (availableCountries sampleBank Easy 1). ''Tokyo'' = capital c)"
  using eligible_subset_ramp [of 1 sampleBank sampleDraw Easy
      "\<lparr>country = ''Japan'', capital = ''Tokyo'', difficulty = Some Easy,
          options = [''Thimphu'', ''Lima'', ''Paris'', ''Tokyo'']\<rparr>"]
    eligible_subset_ramp [of 21 sampleBank sampleDraw Easy limaQuestion]
    eligible_subset_ramp [of 41 sampleBank sampleDraw Easy limaQuestion]
    eligible_subset_ramp [of 30 sampleBank sampleDraw Easy limaQuestion]
    eligible_subset_ramp [of 31 sampleBank sampleDraw Easy limaQuestion]
    sample_generate_easy
  by (simp add: sampleBank_def)


lemma startGame_returns:
  assumes "generateQuestion bank g d 1 = Inr q"
  shows "startGame bank g d s =
           Inr (s\<lparr>currentDifficulty := d, score := 0, hearts := 3, questionNumber := 1,
                  combo := 0, isAnswered := False, selectedAnswer := None,
                  feedback := FbNone, correctAnswer := None, currentQuestion := Some q,
                  timeLeft := (case d of Easy \<Rightarrow> 7 | Medium \<Rightarrow> 4 | Hard \<Rightarrow> 2),
                  screen := ScrGame\<rparr>)"
proof -
  have "getTimeByDifficulty d = (case d of Easy \<Rightarrow> 7 | Medium \<Rightarrow> 4 | Hard \<Rightarrow> 2)"
    by (cases d) simp_all
  then show ?thesis
    using assms by (simp add: startGame_def)
qed

lemma twin_startGame: "startGame twinBank twinDraw Easy armedState = Inr twinStart"
  using startGame_returns [OF twin_generate, of armedState]
  by (simp add: twinStart_def armedState_def initialState_def)

text \<open>
  Claim C8 says that a restart produces a valid question for question 1. On \<open>twinBank\<close>
  the restart from \<open>armedState\<close> in easy mode resets score, hearts, combo, question
  number and time, and opens the round on a question that shows one capital twice.
\<close>

theorem restart_on_shared_capital:
  "fairDraw twinDraw \<and> availableCountries twinBank Easy 1 \<noteq> []
   \<and> 4 \<le> length (remdups (map capital twinBank))
   \<and> startGame twinBank twinDraw Easy armedState = Inr twinStart
   \<and> score twinStart = 0 \<and> hearts twinStart = 3 \<and> combo twinStart = 0
   \<and> questionNumber twinStart = 1 \<and> timeLeft twinStart = 7
   \<and> currentQuestion twinStart = Some twinQuestion
   \<and> \<not> distinct (options twinQuestion)"
  using twin_facts twin_available [of Easy 1] twin_startGame
  by (simp add: twinStart_def twinQuestion_def)

text \<open>
  Claim C8, amended. From every state and on every bank, whenever the generator returns
  a question for question 1, \<open>startGame\<close> with a mode gives the state with score 0,
  three hearts, combo 0 and question number 1, an open round on that question, and the
  time of the mode: 7 seconds for easy, 4 for medium, 2 for hard. With an eligible fact
  and at least four different capitals in the bank the generator does return, and the
  question has four options with the right capital once; its options are pairwise
  distinct when no two facts of the bank share a capital.
\<close>

theorem restart_resets:
  "(generateQuestion bank g d 1 = Inr q \<longrightarrow>
      startGame bank g d s =
        Inr (s\<lparr>currentDifficulty := d, score := 0, hearts := 3, questionNumber := 1,
               combo := 0, isAnswered := False, selectedAnswer := None,
               feedback := FbNone, correctAnswer := None, currentQuestion := Some q,
               timeLeft := (case d of Easy \<Rightarrow> 7 | Medium \<Rightarrow> 4 | Hard \<Rightarrow> 2),
               screen := ScrGame\<rparr>))
   \<and> (fairDraw g \<and> availableCountries bank d 1 \<noteq> []
        \<and> 4 \<le> length (remdups (map capital bank)) \<longrightarrow>
      (\<exists>r q'. startGame bank g d s = Inr r
           \<and> score r = 0 \<and> hearts r = 3 \<and> combo r = 0 \<and> questionNumber r = 1
           \<and> currentDifficulty r = d \<and> screen r = ScrGame
           \<and> \<not> isAnswered r \<and> selectedAnswer r = None \<and> feedback r = FbNone
           \<and> correctAnswer r = None
           \<and> currentQuestion r = Some q' \<and> generateQuestion bank g d 1 = Inr q'
           \<and> length (options q') = 4
           \<and> count_list (options q') (capital q') = 1
           \<and> (distinct (map capital bank) \<longrightarrow> distinct (options q'))
           \<and> timeLeft r = (case d of Easy \<Rightarrow> 7 | Medium \<Rightarrow> 4 | Hard \<Rightarrow> 2)))"
proof -
  have fresh: "\<exists>r q'. startGame bank g d s = Inr r
           \<and> score r = 0 \<and> hearts r = 3 \<and> combo r = 0 \<and> questionNumber r = 1
           \<and> currentDifficulty r = d \<and> screen r = ScrGame
           \<and> \<not> isAnswered r \<and> selectedAnswer r = None \<and> feedback r = FbNone
           \<and> correctAnswer r = None
           \<and> currentQuestion r = Some q' \<and> generateQuestion bank g d 1 = Inr q'
           \<and> length (options q') = 4
           \<and> count_list (options q') (capital q') = 1
           \<and> (distinct (map capital bank) \<longrightarrow> distinct (options q'))
           \<and> timeLeft r = (case d of Easy \<Rightarrow> 7 | Medium \<Rightarrow> 4 | Hard \<Rightarrow> 2)"
    if "fairDraw g" "availableCountries bank d 1 \<noteq> []"
      "4 \<le> length (remdups (map capital bank))"
  proof -
    from generateQuestion_options [OF that]
    obtain q' where q': "generateQuestion bank g d 1 = Inr q'" "length (options q') = 4"
      "count_list (options q') (capital q') = 1"
      "distinct (map capital bank) \<longrightarrow> distinct (options q')"
      by blast
    show ?thesis
      using startGame_returns [OF q'(1), of s] q' by simp
  qed
  show ?thesis
    using startGame_returns [of bank g d q s] fresh by blast
qed

theorem restart_resets_witness:
  "generateQuestion twinBank twinDraw Easy 1 = Inr twinQuestion
   \<and> startGame twinBank twinDraw Easy armedState = Inr twinStart
   \<and> fairDraw sampleDraw \<and> availableCountries sampleBank Medium 1 \<noteq> []
   \<and> 4 \<le> length (remdups (map capital sampleBank))
   \<and> distinct (map capital sampleBank)
   \<and> (\<exists>r q. startGame sampleBank sampleDraw Medium (handleAnswer ''Lima'' armedState) = Inr r
           \<and> score r = 0 \<and> hearts r = 3 \<and> combo r = 0 \<and> questionNumber r = 1
           \<and> currentQuestion r = Some q \<and> length (options q) = 4
           \<and> distinct (options q) \<and> timeLeft r = 4)"
proof -
  have twin: "startGame twinBank twinDraw Easy armedState = Inr twinStart"
    using restart_resets [of twinBank twinDraw Easy twinQuestion armedState] twin_generate
    by (simp add: twinStart_def armedState_def initialState_def)
  from restart_resets [of sampleBank sampleDraw Medium twinQuestion
      "handleAnswer ''Lima'' armedState"] sample_facts sample_available [of Medium 1]
  obtain r q where "startGame sampleBank sampleDraw Medium (handleAnswer ''Lima'' armedState) = Inr r"
     "score r = 0" "hearts r = 3" "combo r = 0" "questionNumber r = 1"
     "currentQuestion r = Some q" "length (options q) = 4" "distinct (options q)"
     "timeLeft r = 4"
    by auto
  then show ?thesis
    using twin twin_generate sample_facts sample_available [of Medium 1] by blast
qed

section \<open>High score\<close>

lemma of_char_digitChar: "k < 10 \<Longrightarrow> (of_char (digitChar k) :: nat) = 48 + k"
  by (simp add: digitChar_def)

lemma digitChar_props:
  assumes "k < 10"
  shows "isDigit (digitChar k)" "digitValue (digitChar k) = k"
proof -
  have v: "(of_char (digitChar k) :: nat) = 48 + k"
    using assms by (rule of_char_digitChar)
  show "isDigit (digitChar k)"
    using assms v by (simp add: isDigit_def)
  show "digitValue (digitChar k) = k"
    using v by (simp add: digitValue_def)
qed

text \<open>A string that starts with no white space character is its own rest.\<close>

lemma skipWhiteSpace_none: "whiteSpaceLength str = 0 \<Longrightarrow> skipWhiteSpace str = str"
  by (simp add: skipWhiteSpace.simps [of str])

lemma whiteSpaceLength_ascii:
  assumes "(of_char c :: nat) < 0x80" and "(of_char c :: nat) \<noteq> 0x20"
    and "(of_char c :: nat) < 0x09 \<or> 0x0D < (of_char c :: nat)"
  shows "whiteSpaceLength (c # r) = 0"
  using assms
  by (auto simp add: whiteSpaceLength_def whiteSpace3_def split: list.splits)

lemma skipWhiteSpace_digit: "isDigit c \<Longrightarrow> skipWhiteSpace (c # r) = c # r"
  by (rule skipWhiteSpace_none, rule whiteSpaceLength_ascii) (simp_all add: isDigit_def)

lemma digits_isDigit: "c \<in> set (digits n) \<Longrightarrow> isDigit c"
proof (induction n arbitrary: c rule: digits.induct)
  case (1 n)
  show ?case
  proof (cases "n < 10")
    case True
    with "1.prems" show ?thesis
      by (simp add: digits.simps [of n] digitChar_props(1))
  next
    case False
    have "n mod 10 < 10" by simp
    then have "isDigit (digitChar (n mod 10))" by (rule digitChar_props(1))
    with False "1.prems" "1.IH" show ?thesis
      by (auto simp add: digits.simps [of n])
  qed
qed

lemma digits_not_Nil: "digits n \<noteq> []"
  by (subst digits.simps) simp

lemma digitsValue_snoc: "digitsValue (z @ [c]) = 10 * digitsValue z + digitValue c"
  by (simp add: digitsValue_def)

lemma digitsValue_digits: "digitsValue (digits n) = n"
proof (induction n rule: digits.induct)
  case (1 n)
  show ?case
  proof (cases "n < 10")
    case True
    then show ?thesis
      by (subst digits.simps) (simp add: digitsValue_def digitChar_props(2))
  next
    case False
    have "digitsValue (digits n) = 10 * digitsValue (digits (n div 10)) + digitValue (digitChar (n mod 10))"
      using False by (subst digits.simps) (simp add: digitsValue_snoc)
    also have "\<dots> = 10 * (n div 10) + n mod 10"
      using False "1.IH" by (simp add: digitChar_props(2))
    finally show ?thesis by simp
  qed
qed

lemma parseInt_digits: "parseInt (digits n) = Num (int n)"
proof -
  obtain c r where cr: "digits n = c # r"
    using digits_not_Nil [of n] by (cases "digits n") auto
  have all: "\<forall>x \<in> set (digits n). isDigit x"
    using digits_isDigit by blast
  have c: "isDigit c" using cr all by simp
  have nws: "skipWhiteSpace (c # r) = c # r"
    using c by (rule skipWhiteSpace_digit)
  have nsign: "c \<noteq> CHR ''-''" "c \<noteq> CHR ''+''"
    using c by (auto simp add: isDigit_def)
  have r: "takeWhile isDigit r = r"
    using all cr by simp
  have v: "digitsValue (c # r) = n"
    using digitsValue_digits [of n] cr by simp
  show ?thesis
    by (simp add: parseInt_def Let_def cr nws nsign c r v)
qed

lemma parseInt_toString: "0 \<le> n \<Longrightarrow> parseInt (toString n) = Num n"
  by (simp add: toString_def parseInt_digits)

lemma toString_not_Nil: "toString n \<noteq> []"
  by (simp add: toString_def digits_not_Nil)


lemma toString_inj: "0 \<le> a \<Longrightarrow> 0 \<le> b \<Longrightarrow> toString a = toString b \<Longrightarrow> a = b"
  by (metis parseInt_toString number.inject)

lemma getHighScore_valid:
  assumes "\<not> getItemThrows ls"
    and "(highScoreItem ls = None \<and> prev = 0) \<or> (highScoreItem ls = Some (toString prev) \<and> 0 \<le> prev)"
  shows "getHighScore ls = Num prev"
  using assms by (auto simp add: getHighScore_def toString_not_Nil parseInt_toString)

text \<open>
  Claim C7. On the game-over screen, with a working store that holds no value (a high
  score of 0) or the decimal form of a high score \<open>prev\<close>, the effect overwrites the
  stored value exactly when the score of the run is greater than \<open>prev\<close>, and then with
  the decimal form of that score; with an equal score the store is unchanged.
\<close>

theorem high_score_overwritten_iff_greater:
  assumes over: "screen s = ScrGameOver"
    and works: "\<not> getItemThrows ls \<and> \<not> setItemThrows ls"
    and held: "(highScoreItem ls = None \<and> prev = 0)
               \<or> (highScoreItem ls = Some (toString prev) \<and> 0 \<le> prev)"
    and sc: "0 \<le> score s"
  shows "snd (gameOverEffect (s, ls)) =
           (if prev < score s then ls\<lparr>highScoreItem := Some (toString (score s))\<rparr> else ls)
       \<and> (highScoreItem (snd (gameOverEffect (s, ls))) \<noteq> highScoreItem ls) = (prev < score s)
       \<and> (score s = prev \<longrightarrow> snd (gameOverEffect (s, ls)) = ls)"
proof -
  have cur: "getHighScore ls = Num prev"
    using works held by (intro getHighScore_valid) simp_all
  have nonneg: "0 \<le> prev"
    using held by auto
  have eff: "snd (gameOverEffect (s, ls)) =
           (if prev < score s then ls\<lparr>highScoreItem := Some (toString (score s))\<rparr> else ls)"
    using over works cur nonneg
    by (auto simp add: gameOverEffect_def saveHighScore_def Let_def)
  have changed: "prev < score s \<Longrightarrow> Some (toString (score s)) \<noteq> highScoreItem ls"
    using held toString_inj [of "score s" prev] sc by auto
  have iff: "(highScoreItem (snd (gameOverEffect (s, ls))) \<noteq> highScoreItem ls) = (prev < score s)"
    using eff changed by auto
  show ?thesis
    using eff iff by simp
qed

lemma digitChar_samples:
  "digitChar 0 = CHR ''0''" "digitChar (Suc 0) = CHR ''1''" "digitChar 2 = CHR ''2''"
  "digitChar 5 = CHR ''5''"
  by code_simp+

lemma toString_samples: "toString 120 = ''120''" "toString 150 = ''150''"
  by (simp_all add: toString_def digits.simps digitChar_samples)

theorem high_score_overwritten_iff_greater_witness:
  "screen (gameOverState 150) = ScrGameOver
   \<and> \<not> getItemThrows (storeWith ''120'') \<and> \<not> setItemThrows (storeWith ''120'')
   \<and> highScoreItem (storeWith ''120'') = Some (toString 120) \<and> (0::int) \<le> 120
   \<and> 0 \<le> score (gameOverState 150)
   \<and> snd (gameOverEffect (gameOverState 150, storeWith ''120'')) = storeWith ''150''
   \<and> snd (gameOverEffect (gameOverState 120, storeWith ''120'')) = storeWith ''120''
   \<and> snd (gameOverEffect (gameOverState 90, storeWith ''120'')) = storeWith ''120''"
proof -
  have h: "screen (gameOverState sc) = ScrGameOver" "score (gameOverState sc) = sc"
    "\<not> getItemThrows (storeWith ''120'') \<and> \<not> setItemThrows (storeWith ''120'')"
    "(highScoreItem (storeWith ''120'') = None \<and> (120::int) = 0)
       \<or> (highScoreItem (storeWith ''120'') = Some (toString 120) \<and> (0::int) \<le> 120)" for sc
    by (simp_all add: gameOverState_def initialState_def storeWith_def toString_samples)
  have "0 \<le> score (gameOverState 150)" "0 \<le> score (gameOverState 120)"
    "0 \<le> score (gameOverState 90)"
    by (simp_all add: h(2))
  then show ?thesis
    using high_score_overwritten_iff_greater [OF h(1) h(3) h(4), of 150]
      high_score_overwritten_iff_greater [OF h(1) h(3) h(4), of 120]
      high_score_overwritten_iff_greater [OF h(1) h(3) h(4), of 90]
    by (simp add: h(1,2) storeWith_def toString_samples)
qed

lemma skipWhiteSpace_samples:
  "skipWhiteSpace ''abc'' = ''abc''" "skipWhiteSpace ''-5'' = ''-5''"
  by (rule skipWhiteSpace_none, rule whiteSpaceLength_ascii, simp_all)+

lemma parseInt_samples: "parseInt ''abc'' = NaN" "parseInt ''-5'' = Num (- 5)"
  by (simp_all add: parseInt_def skipWhiteSpace_samples isDigit_def digitsValue_def
        digitValue_def)

text \<open>
  Claim C9 says that the load returns a non-negative integer for every stored value,
  and 0 for a corrupted one. The load does return 0 when reading the store throws, when
  nothing is stored and when the stored value is empty, and it returns the stored
  high score; but it returns the result of \<^verbatim>\<open>parseInt\<close> unchecked, so the stored value
  \<^verbatim>\<open>abc\<close> loads as NaN and the stored value \<^verbatim>\<open>-5\<close> as \<open>-5\<close>. With NaN loaded, no score
  compares greater, and the game-over effect leaves the corrupted value in the store
  and shows NaN as the high score.
\<close>

theorem corrupted_high_score_is_NaN:
  "getHighScore brokenStore = Num 0
   \<and> getHighScore emptyStore = Num 0
   \<and> getHighScore (storeWith []) = Num 0
   \<and> getHighScore (storeWith ''120'') = Num 120
   \<and> getHighScore (storeWith ''abc'') = NaN
   \<and> getHighScore (storeWith ''-5'') = Num (- 5)
   \<and> gameOverEffect (gameOverState 150, storeWith ''abc'')
       = ((gameOverState 150)\<lparr>highScore := NaN\<rparr>, storeWith ''abc'')"
proof -
  have stored: "getHighScore (storeWith ''120'') = Num 120"
    using getHighScore_valid [of "storeWith ''120''" 120]
    by (simp add: storeWith_def toString_samples)
  have corrupt: "getHighScore (storeWith ''abc'') = NaN"
    "getHighScore (storeWith ''-5'') = Num (- 5)"
    by (simp_all add: getHighScore_def storeWith_def parseInt_samples)
  have over: "screen (gameOverState 150) = ScrGameOver" "score (gameOverState 150) = 150"
    by (simp_all add: gameOverState_def initialState_def)
  have effect: "gameOverEffect (gameOverState 150, storeWith ''abc'')
       = ((gameOverState 150)\<lparr>highScore := NaN\<rparr>, storeWith ''abc'')"
    by (simp add: gameOverEffect_def saveHighScore_def over corrupt Let_def)
  show ?thesis
    using stored corrupt effect
    by (simp add: getHighScore_def brokenStore_def emptyStore_def storeWith_def)
qed

end
